theory Spec2Isabelle
  imports
    Complex_Main
    "HOL-Library.Char_ord"
    "HOL-Library.List_Lexorder"
    "HOL-Library.Multiset"
    "HOL-Library.Product_Lexorder"
    "HOL-Library.Sublist"
begin

section \<open>Python values\<close>

text \<open>
  A Python \<open>float\<close> is a binary64 number or the not-a-number value; \<open>Fin x\<close> is the
  float whose value is the real \<open>x\<close>. Arithmetic propagates \<open>NaN\<close>; every ordered
  comparison and \<open>==\<close> with \<open>NaN\<close> is false, \<open>!=\<close> is true.

  The operations \<open>pf_add\<close>, \<open>pf_sub\<close> and \<open>pf_mul\<close> are the exact ones: they are the
  idealisation in which no result is rounded, and are used for the generators and for
  the exact sum of what an exporter has sent. The subtraction of the exporters is also
  given as the binary64 operation \<open>pf_sub64\<close>, which rounds the exact difference to the
  nearest number with a 53-bit significand, ties to the even significand
  (\<open>round64\<close>). The exponent range is not bounded in \<open>round64\<close>: overflow to an infinity is
  not modelled (it needs a difference of magnitude above \<open>2 ^ 1024\<close>), and a difference
  of two binary64 numbers that falls in the subnormal range is exact in binary64 as it is
  here.
\<close>

datatype pyfloat = Fin real | NaN

fun pf_add :: "pyfloat \<Rightarrow> pyfloat \<Rightarrow> pyfloat" where
  "pf_add (Fin a) (Fin b) = Fin (a + b)"
| "pf_add _ _ = NaN"

fun pf_sub :: "pyfloat \<Rightarrow> pyfloat \<Rightarrow> pyfloat" where
  "pf_sub (Fin a) (Fin b) = Fin (a - b)"
| "pf_sub _ _ = NaN"

text \<open>Rounding a real to the nearest integer, a tie to the even one.\<close>

definition round_half_even :: "real \<Rightarrow> int" where
  "round_half_even m =
     (let f = \<lfloor>m\<rfloor> in
      if m - of_int f < 1 / 2 then f
      else if 1 / 2 < m - of_int f then f + 1
      else if even f then f else f + 1)"

text \<open>Rounding a real to binary64: with \<open>2 ^ k \<le> \<bar>x\<bar> < 2 ^ (k + 1)\<close> the result is the
  multiple of \<open>2 ^ (k - 52)\<close> nearest to \<open>x\<close>.\<close>

definition round64 :: "real \<Rightarrow> real" where
  "round64 x =
     (if x = 0 then 0
      else
        (let e = \<lfloor>log 2 \<bar>x\<bar>\<rfloor> - 52
         in sgn x * of_int (round_half_even (\<bar>x\<bar> / 2 powr of_int e)) * 2 powr of_int e))"

text \<open>\<open>a - b\<close> on binary64 floats.\<close>

fun pf_sub64 :: "pyfloat \<Rightarrow> pyfloat \<Rightarrow> pyfloat" where
  "pf_sub64 (Fin a) (Fin b) = Fin (round64 (a - b))"
| "pf_sub64 _ _ = NaN"

fun pf_mul :: "pyfloat \<Rightarrow> pyfloat \<Rightarrow> pyfloat" where
  "pf_mul (Fin a) (Fin b) = Fin (a * b)"
| "pf_mul _ _ = NaN"

fun pf_gt :: "pyfloat \<Rightarrow> pyfloat \<Rightarrow> bool" where
  "pf_gt (Fin a) (Fin b) = (a > b)"
| "pf_gt _ _ = False"

fun pf_lt :: "pyfloat \<Rightarrow> pyfloat \<Rightarrow> bool" where
  "pf_lt (Fin a) (Fin b) = (a < b)"
| "pf_lt _ _ = False"

fun pf_ge :: "pyfloat \<Rightarrow> pyfloat \<Rightarrow> bool" where
  "pf_ge (Fin a) (Fin b) = (a \<ge> b)"
| "pf_ge _ _ = False"

fun pf_le :: "pyfloat \<Rightarrow> pyfloat \<Rightarrow> bool" where
  "pf_le (Fin a) (Fin b) = (a \<le> b)"
| "pf_le _ _ = False"

fun pf_ne :: "pyfloat \<Rightarrow> pyfloat \<Rightarrow> bool" where
  "pf_ne (Fin a) (Fin b) = (a \<noteq> b)"
| "pf_ne _ _ = True"

fun isnan :: "pyfloat \<Rightarrow> bool" where
  "isnan NaN = True"
| "isnan (Fin _) = False"

text \<open>\<open>sum(xs)\<close> over floats, starting from 0, left to right.\<close>

definition pf_sum :: "pyfloat list \<Rightarrow> pyfloat" where
  "pf_sum xs = foldl pf_add (Fin 0) xs"

text \<open>\<open>d.get(k, default)\<close> on a dictionary.\<close>

definition dict_get :: "('k \<rightharpoonup> 'v) \<Rightarrow> 'k \<Rightarrow> 'v \<Rightarrow> 'v" where
  "dict_get d k dflt = (case d k of None \<Rightarrow> dflt | Some v \<Rightarrow> v)"

text \<open>\<open>sep.join(xs)\<close>.\<close>

fun join :: "string \<Rightarrow> string list \<Rightarrow> string" where
  "join sep [] = []"
| "join sep [x] = x"
| "join sep (x # y # ys) = x @ sep @ join sep (y # ys)"

section \<open>Series points and series keys\<close>

text \<open>
  A label dictionary \<open>Dict[str, str]\<close> is an association list in insertion order with
  distinct keys. \<open>sorted(labels.items())\<close> sorts the (name, value) pairs
  lexicographically, strings by character code.
\<close>

type_synonym labels = "(string \<times> string) list"

record SeriesPoint =
  sp_name :: string
  sp_labels :: labels
  sp_value :: pyfloat

text \<open>\<open>SeriesPoint.label_key\<close>, \<open>CounterGenerator._label_key\<close>,
  \<open>GaugeGenerator._label_key\<close>: the comma-joined sorted \<open>name=value\<close> pairs.\<close>

definition label_key :: "labels \<Rightarrow> string" where
  "label_key lbls = join '','' (map (\<lambda>(k, v). k @ ''='' @ v) (sort lbls))"

text \<open>\<open>OTELExporter._series_key\<close>.\<close>

definition series_key :: "string \<Rightarrow> labels \<Rightarrow> string" where
  "series_key metric_name lbls = metric_name @ '':'' @ label_key lbls"

text \<open>The prefix stripping at the head of \<open>export_point\<close> and \<open>export_points\<close>.\<close>

definition strip_prefix :: "string \<Rightarrow> string \<Rightarrow> string" where
  "strip_prefix pfx nm = (if prefix pfx nm then drop (length pfx) nm else nm)"

section \<open>The push-model exporter (otel_exporter.py)\<close>

text \<open>
  The SDK instruments are external. An instrument is modelled by its kind and its
  registered name, and a call of \<open>instrument.add\<close> or \<open>instrument.record\<close> by an entry
  of the list of calls that \<open>export_point\<close> returns beside the updated exporter.
  A counter and an up-down counter have \<open>add\<close>, a histogram has \<open>record\<close>; calling
  the method an instrument lacks raises, which the \<open>try\<close> of \<open>export_point\<close> catches
  and logs, leaving the exporter as it was. SDK calls that exist return normally.
\<close>

datatype instrument = OtelCounter string | OtelUpDownCounter string | OtelHistogram string

datatype otel_call =
    Add instrument pyfloat labels
  | Record instrument pyfloat labels

fun has_add :: "instrument \<Rightarrow> bool" where
  "has_add (OtelCounter _) = True"
| "has_add (OtelUpDownCounter _) = True"
| "has_add (OtelHistogram _) = False"

fun has_record :: "instrument \<Rightarrow> bool" where
  "has_record (OtelHistogram _) = True"
| "has_record _ = False"

fun call_amount :: "otel_call \<Rightarrow> pyfloat" where
  "call_amount (Add _ a _) = a"
| "call_amount (Record _ a _) = a"

fun call_labels :: "otel_call \<Rightarrow> labels" where
  "call_labels (Add _ _ l) = l"
| "call_labels (Record _ _ l) = l"

record OTELExporter =
  otel_prefix :: string
  instruments :: "string \<rightharpoonup> instrument"
  instrument_types :: "string \<rightharpoonup> string"
  counter_state :: "string \<rightharpoonup> pyfloat"
  gauge_cumulative :: "string \<rightharpoonup> pyfloat"

text \<open>\<open>OTELExporter.__init__\<close>: empty registries and empty per-series state.\<close>

definition OTELExporter_init :: "string \<Rightarrow> OTELExporter" where
  "OTELExporter_init pfx =
     \<lparr>otel_prefix = pfx, instruments = Map.empty, instrument_types = Map.empty,
      counter_state = Map.empty, gauge_cumulative = Map.empty\<rparr>"

text \<open>\<open>OTELExporter.register_metric\<close>; the label names and buckets are only logged.\<close>

definition otel_register_metric :: "OTELExporter \<Rightarrow> string \<Rightarrow> string \<Rightarrow> OTELExporter" where
  "otel_register_metric self metric_name metric_type =
     (let otel_metric_name = otel_prefix self @ metric_name in
      if metric_type = ''counter'' then
        self\<lparr>instruments := (instruments self)(metric_name \<mapsto> OtelCounter otel_metric_name),
             instrument_types := (instrument_types self)(metric_name \<mapsto> ''counter'')\<rparr>
      else if metric_type = ''gauge'' then
        self\<lparr>instruments := (instruments self)(metric_name \<mapsto> OtelUpDownCounter otel_metric_name),
             instrument_types := (instrument_types self)(metric_name \<mapsto> ''gauge'')\<rparr>
      else if metric_type = ''histogram'' then
        self\<lparr>instruments := (instruments self)(metric_name \<mapsto> OtelHistogram otel_metric_name),
             instrument_types := (instrument_types self)(metric_name \<mapsto> ''histogram'')\<rparr>
      else if metric_type = ''summary'' then
        self\<lparr>instruments := (instruments self)(metric_name \<mapsto> OtelHistogram otel_metric_name),
             instrument_types := (instrument_types self)(metric_name \<mapsto> ''summary'')\<rparr>
      else self)"

text \<open>\<open>OTELExporter.export_point\<close>. The subtraction \<open>point.value - prev_value\<close> (and
  \<open>point.value - current_cumulative\<close>) is the parameter \<open>sub\<close>, so that the same body is
  read with the exact subtraction and with the binary64 one.\<close>

definition otel_export_point_with ::
  "(pyfloat \<Rightarrow> pyfloat \<Rightarrow> pyfloat) \<Rightarrow> OTELExporter \<Rightarrow> SeriesPoint \<Rightarrow> string
     \<Rightarrow> otel_call list \<times> OTELExporter" where
  "otel_export_point_with sub self point metric_type =
     (let base_name = strip_prefix (otel_prefix self) (sp_name point) in
      case instruments self base_name of
        None \<Rightarrow> ([], self)
      | Some instrument \<Rightarrow>
          if metric_type = ''counter'' then
            (let skey = series_key base_name (sp_labels point);
                 prev_value = dict_get (counter_state self) skey (Fin 0);
                 delta = sub (sp_value point) prev_value
             in if pf_gt delta (Fin 0) then
                  (if has_add instrument then
                     ([Add instrument delta (sp_labels point)],
                      self\<lparr>counter_state := (counter_state self)(skey \<mapsto> sp_value point)\<rparr>)
                   else ([], self))
                else if pf_lt delta (Fin 0) then
                  (if has_add instrument then
                     ([Add instrument (sp_value point) (sp_labels point)],
                      self\<lparr>counter_state := (counter_state self)(skey \<mapsto> sp_value point)\<rparr>)
                   else ([], self))
                else ([], self))
          else if metric_type = ''gauge'' then
            (let skey = series_key base_name (sp_labels point);
                 current_cumulative = dict_get (gauge_cumulative self) skey (Fin 0);
                 delta = sub (sp_value point) current_cumulative
             in if pf_ne delta (Fin 0) then
                  (if has_add instrument then
                     ([Add instrument delta (sp_labels point)],
                      self\<lparr>gauge_cumulative := (gauge_cumulative self)(skey \<mapsto> sp_value point)\<rparr>)
                   else ([], self))
                else ([], self))
          else if metric_type = ''histogram'' then
            (if has_record instrument
             then ([Record instrument (sp_value point) (sp_labels point)], self)
             else ([], self))
          else if metric_type = ''summary'' then
            (if has_record instrument
             then ([Record instrument (sp_value point) (sp_labels point)], self)
             else ([], self))
          else ([], self))"

text \<open>\<open>OTELExporter.export_points\<close>: the points of a batch in order; a point whose
  base name has no (non-empty) type in \<open>metric_types\<close> is skipped.\<close>

fun otel_export_points_with ::
  "(pyfloat \<Rightarrow> pyfloat \<Rightarrow> pyfloat) \<Rightarrow> OTELExporter \<Rightarrow> SeriesPoint list \<Rightarrow> (string \<rightharpoonup> string)
     \<Rightarrow> otel_call list \<times> OTELExporter" where
  "otel_export_points_with sub self [] metric_types = ([], self)"
| "otel_export_points_with sub self (point # points) metric_types =
     (let base_name = strip_prefix (otel_prefix self) (sp_name point) in
      case metric_types base_name of
        None \<Rightarrow> otel_export_points_with sub self points metric_types
      | Some metric_type \<Rightarrow>
          if metric_type \<noteq> [] then
            (let (calls1, self1) = otel_export_point_with sub self point metric_type;
                 (calls2, self2) = otel_export_points_with sub self1 points metric_types
             in (calls1 @ calls2, self2))
          else otel_export_points_with sub self points metric_types)"

text \<open>The exporter over exact arithmetic.\<close>

definition otel_export_point ::
  "OTELExporter \<Rightarrow> SeriesPoint \<Rightarrow> string \<Rightarrow> otel_call list \<times> OTELExporter" where
  "otel_export_point = otel_export_point_with pf_sub"

definition otel_export_points ::
  "OTELExporter \<Rightarrow> SeriesPoint list \<Rightarrow> (string \<rightharpoonup> string) \<Rightarrow> otel_call list \<times> OTELExporter" where
  "otel_export_points = otel_export_points_with pf_sub"

text \<open>The exporter over binary64 arithmetic.\<close>

definition otel_export_point64 ::
  "OTELExporter \<Rightarrow> SeriesPoint \<Rightarrow> string \<Rightarrow> otel_call list \<times> OTELExporter" where
  "otel_export_point64 = otel_export_point_with pf_sub64"

definition otel_export_points64 ::
  "OTELExporter \<Rightarrow> SeriesPoint list \<Rightarrow> (string \<rightharpoonup> string) \<Rightarrow> otel_call list \<times> OTELExporter" where
  "otel_export_points64 = otel_export_points_with pf_sub64"

section \<open>The pull-model exporter (prom_exporter.py)\<close>

text \<open>
  The client library's metric objects are external. A registered metric is modelled by
  its kind, name and label names, and a write by an entry of the list of calls that
  \<open>export_point\<close> returns: \<open>ValueSet\<close> for \<open>metric.labels(..)._value.set(v)\<close>, \<open>GaugeSet\<close>
  for \<open>.set(v)\<close>, \<open>Observe\<close> for \<open>.observe(v)\<close>. Children of a counter and of a gauge have
  \<open>_value\<close>, only a gauge has \<open>set\<close>, a histogram and a summary have \<open>observe\<close>; a missing
  attribute raises, and the \<open>try\<close> of \<open>export_point\<close> catches it. So it catches the
  \<open>ValueError\<close> of \<open>metric.labels(**point.labels)\<close>, which the library raises for a metric
  registered with no label names and for keyword names that are not, once sorted, the
  sorted label names of the metric (\<open>labels_accepted\<close>); nothing is written then. The
  registry writes nothing back into the exporter, which is therefore unchanged by
  \<open>export_point\<close>.
\<close>

datatype prom_kind = PromCounter | PromGauge | PromHistogram | PromSummary

record prom_metric =
  pm_kind :: prom_kind
  pm_name :: string
  pm_label_names :: "string list"

datatype prom_call =
    ValueSet prom_metric labels pyfloat
  | GaugeSet prom_metric labels pyfloat
  | Observe prom_metric labels pyfloat

record PrometheusExporter =
  prom_prefix :: string
  config_names :: "string list"
  metrics :: "string \<rightharpoonup> prom_metric"
  label_names :: "string \<rightharpoonup> string list"

text \<open>\<open>PrometheusExporter.__init__\<close>; \<open>config_names\<close> are the names of the metric
  configurations, the only part of \<open>metrics_config\<close> that registration reads beside
  the bucket list.\<close>

definition PrometheusExporter_init :: "string \<Rightarrow> string list \<Rightarrow> PrometheusExporter" where
  "PrometheusExporter_init pfx names =
     \<lparr>prom_prefix = pfx, config_names = names, metrics = Map.empty, label_names = Map.empty\<rparr>"

text \<open>\<open>PrometheusExporter.register_metric\<close>: a metric with no configuration of its name
  is not registered; an unknown type registers only the label names.\<close>

definition prom_register_metric ::
  "PrometheusExporter \<Rightarrow> string \<Rightarrow> string \<Rightarrow> string list \<Rightarrow> PrometheusExporter" where
  "prom_register_metric self metric_name metric_type lnames =
     (let prom_metric_name = prom_prefix self @ metric_name in
      if metric_name \<notin> set (config_names self) then self
      else
        (let self1 =
           (if metric_type = ''counter'' then
              self\<lparr>metrics := (metrics self)(metric_name \<mapsto>
                \<lparr>pm_kind = PromCounter, pm_name = prom_metric_name, pm_label_names = lnames\<rparr>)\<rparr>
            else if metric_type = ''gauge'' then
              self\<lparr>metrics := (metrics self)(metric_name \<mapsto>
                \<lparr>pm_kind = PromGauge, pm_name = prom_metric_name, pm_label_names = lnames\<rparr>)\<rparr>
            else if metric_type = ''histogram'' then
              self\<lparr>metrics := (metrics self)(metric_name \<mapsto>
                \<lparr>pm_kind = PromHistogram, pm_name = prom_metric_name, pm_label_names = lnames\<rparr>)\<rparr>
            else if metric_type = ''summary'' then
              self\<lparr>metrics := (metrics self)(metric_name \<mapsto>
                \<lparr>pm_kind = PromSummary, pm_name = prom_metric_name, pm_label_names = lnames\<rparr>)\<rparr>
            else self)
         in self1\<lparr>label_names := (label_names self1)(metric_name \<mapsto> lnames)\<rparr>))"

text \<open>Whether \<open>metric.labels(**lbls)\<close> returns a child rather than raising.\<close>

definition labels_accepted :: "prom_metric \<Rightarrow> labels \<Rightarrow> bool" where
  "labels_accepted metric lbls =
     (pm_label_names metric \<noteq> [] \<and> sort (map fst lbls) = sort (pm_label_names metric))"

text \<open>\<open>PrometheusExporter.export_point\<close>.\<close>

definition prom_export_point :: "PrometheusExporter \<Rightarrow> SeriesPoint \<Rightarrow> string \<Rightarrow> prom_call list" where
  "prom_export_point self point metric_type =
     (let base_name = strip_prefix (prom_prefix self) (sp_name point) in
      case metrics self base_name of
        None \<Rightarrow> []
      | Some metric \<Rightarrow>
          if metric_type = ''counter'' then
            (if labels_accepted metric (sp_labels point)
                \<and> (pm_kind metric = PromCounter \<or> pm_kind metric = PromGauge)
             then [ValueSet metric (sp_labels point) (sp_value point)] else [])
          else if metric_type = ''gauge'' then
            (if labels_accepted metric (sp_labels point) \<and> pm_kind metric = PromGauge
             then [GaugeSet metric (sp_labels point) (sp_value point)] else [])
          else if metric_type = ''histogram'' then
            (if labels_accepted metric (sp_labels point)
                \<and> (pm_kind metric = PromHistogram \<or> pm_kind metric = PromSummary)
             then [Observe metric (sp_labels point) (sp_value point)] else [])
          else if metric_type = ''summary'' then
            (if labels_accepted metric (sp_labels point)
                \<and> (pm_kind metric = PromHistogram \<or> pm_kind metric = PromSummary)
             then [Observe metric (sp_labels point) (sp_value point)] else [])
          else [])"

text \<open>\<open>PrometheusExporter.export_points\<close>.\<close>

fun prom_export_points ::
  "PrometheusExporter \<Rightarrow> SeriesPoint list \<Rightarrow> (string \<rightharpoonup> string) \<Rightarrow> prom_call list" where
  "prom_export_points self [] metric_types = []"
| "prom_export_points self (point # points) metric_types =
     (let base_name = strip_prefix (prom_prefix self) (sp_name point) in
      case metric_types base_name of
        None \<Rightarrow> prom_export_points self points metric_types
      | Some metric_type \<Rightarrow>
          if metric_type \<noteq> [] then
            prom_export_point self point metric_type @ prom_export_points self points metric_types
          else prom_export_points self points metric_types)"

section \<open>Label spaces (cardinality.py)\<close>

datatype py_error = ValueError | TypeError | IndexError | KeyError | ZeroDivisionError

text \<open>\<open>LabelValueSpec\<close> and \<open>CardinalityProfile\<close> of config.py. A dictionary whose order
  matters is an association list in insertion order.\<close>

record LabelValueSpec =
  lvs_values :: "string list option"
  lvs_range :: "int list option"
  lvs_fmt :: "string option"

record CardinalityProfile =
  cp_labels :: "(string \<times> LabelValueSpec) list"
  series_cap :: "int option"
  sampling_strategy :: string

text \<open>
  The two string formatting operators of Python are external: \<open>percent_format fmt i\<close> is
  \<open>fmt % i\<close> and \<open>str_format fmt i\<close> is \<open>fmt.format(i)\<close>, each returning the text or the
  exception it raises on a template it does not support.
\<close>

record py_format =
  percent_format :: "string \<Rightarrow> int \<Rightarrow> py_error + string"
  str_format :: "string \<Rightarrow> int \<Rightarrow> py_error + string"

text \<open>A list comprehension whose body may raise: the first exception ends it.\<close>

fun try_map :: "('a \<Rightarrow> 'e + 'b) \<Rightarrow> 'a list \<Rightarrow> 'e + 'b list" where
  "try_map f [] = Inr []"
| "try_map f (x # xs) =
     (case f x of
        Inl e \<Rightarrow> Inl e
      | Inr y \<Rightarrow> (case try_map f xs of Inl e \<Rightarrow> Inl e | Inr ys \<Rightarrow> Inr (y # ys)))"

text \<open>\<open>generate_label_values\<close>. \<open>range(start, end + 1)\<close> is \<open>[start..end]\<close>, empty when
  \<open>end < start\<close>; unpacking a range list that has not two elements raises.\<close>

definition generate_label_values :: "py_format \<Rightarrow> LabelValueSpec \<Rightarrow> py_error + string list" where
  "generate_label_values py spec =
     (case lvs_values spec of
        Some vals \<Rightarrow> Inr vals
      | None \<Rightarrow>
          (case lvs_range spec of
             Some rng \<Rightarrow>
               (case rng of
                  [start, endv] \<Rightarrow>
                    (let fmt = (case lvs_fmt spec of
                                  None \<Rightarrow> ''{}''
                                | Some f \<Rightarrow> if f = [] then ''{}'' else f)
                     in if CHR ''%'' \<in> set fmt
                        then try_map (percent_format py fmt) [start..endv]
                        else try_map (str_format py fmt) [start..endv])
                | _ \<Rightarrow> Inl ValueError)
           | None \<Rightarrow> Inr []))"

text \<open>\<open>d[k] = v\<close> and \<open>d.update(other)\<close> on a dictionary in insertion order.\<close>

fun dict_set :: "'k \<Rightarrow> 'v \<Rightarrow> ('k \<times> 'v) list \<Rightarrow> ('k \<times> 'v) list" where
  "dict_set k v [] = [(k, v)]"
| "dict_set k v (kv # d) = (if fst kv = k then (k, v) # d else kv # dict_set k v d)"

definition dict_update :: "('k \<times> 'v) list \<Rightarrow> ('k \<times> 'v) list \<Rightarrow> ('k \<times> 'v) list" where
  "dict_update d other = foldl (\<lambda>acc kv. dict_set (fst kv) (snd kv) acc) d other"

text \<open>The inner generator \<open>cartesian_product\<close> of \<open>generate_label_space\<close>.\<close>

fun cartesian_product :: "'a list list \<Rightarrow> 'a list list" where
  "cartesian_product [] = [[]]"
| "cartesian_product (l # ls) =
     concat (map (\<lambda>item. map (\<lambda>rest. item # rest) (cartesian_product ls)) l)"

text \<open>The slice \<open>xs[:n]\<close>; a negative \<open>n\<close> counts from the end.\<close>

definition slice_to :: "int \<Rightarrow> 'a list \<Rightarrow> 'a list" where
  "slice_to n xs = (if 0 \<le> n then take (nat n) xs else take (length xs - nat (- n)) xs)"

text \<open>
  \<open>apply_series_cap\<close>. The digest \<open>int(hashlib.md5(s.encode()).hexdigest(), 16)\<close> is
  external: it is the parameter \<open>md5_int\<close>. \<open>sorted(.., key=..)\<close> is stable, as
  \<open>sort_key\<close> is.
\<close>

definition label_hash :: "(string \<Rightarrow> nat) \<Rightarrow> labels \<Rightarrow> nat" where
  "label_hash md5_int lbls = md5_int (label_key lbls)"

definition apply_series_cap :: "(string \<Rightarrow> nat) \<Rightarrow> labels list \<Rightarrow> int \<Rightarrow> string \<Rightarrow> labels list" where
  "apply_series_cap md5_int label_combos cap strategy =
     (if strategy = ''first_n'' then slice_to cap label_combos
      else if strategy = ''hash'' then
        (let sorted_by_hash = sort_key (label_hash md5_int) label_combos
         in slice_to cap sorted_by_hash)
      else slice_to cap label_combos)"

text \<open>\<open>generate_label_space\<close>; \<open>if profile.series_cap and ...\<close> is false for a cap that
  is \<open>None\<close> or 0.\<close>

definition generate_label_space ::
  "py_format \<Rightarrow> (string \<Rightarrow> nat) \<Rightarrow> CardinalityProfile \<Rightarrow> (string \<times> LabelValueSpec) list option
     \<Rightarrow> py_error + labels list" where
  "generate_label_space py md5_int profile additional_labels =
     (let all_label_specs =
            (case additional_labels of
               None \<Rightarrow> cp_labels profile
             | Some extra \<Rightarrow> dict_update (cp_labels profile) extra)
      in if all_label_specs = [] then Inr [[]]
         else
           (let label_names = map fst all_label_specs in
            case try_map (\<lambda>nm_spec. generate_label_values py (snd nm_spec)) all_label_specs of
              Inl e \<Rightarrow> Inl e
            | Inr label_value_lists \<Rightarrow>
                (let label_combos =
                       map (\<lambda>value_combo. zip label_names value_combo)
                         (cartesian_product label_value_lists)
                 in case series_cap profile of
                      None \<Rightarrow> Inr label_combos
                    | Some cap \<Rightarrow>
                        if cap \<noteq> 0 \<and> int (length label_combos) > cap
                        then Inr (apply_series_cap md5_int label_combos cap
                                    (sampling_strategy profile))
                        else Inr label_combos)))"

section \<open>Metric configuration (config.py)\<close>

record MixtureComponent =
  comp_type :: string
  comp_weight :: pyfloat
  comp_mu :: "pyfloat option"
  comp_sigma :: "pyfloat option"
  comp_lam :: "pyfloat option"

record MetricConfig =
  mc_name :: string
  mc_type :: string
  mc_profile :: string
  mc_algorithm :: string
  mc_labels :: "(string \<times> LabelValueSpec) list option"
  mc_seed :: "int option"
  mc_base_rate :: "pyfloat option"
  mc_diurnal_amp :: "pyfloat option"
  mc_diurnal_phase :: "pyfloat option"
  mc_start :: "pyfloat option"
  mc_step :: "pyfloat option"
  mc_clamp :: "pyfloat list option"
  mc_mu :: "pyfloat option"
  mc_sigma :: "pyfloat option"
  mc_lam :: "pyfloat option"
  mc_p :: "pyfloat option"
  mc_buckets :: "pyfloat list option"
  mc_components :: "MixtureComponent list option"
  mc_min :: "pyfloat option"
  mc_max :: "pyfloat option"
  mc_period_s :: "int option"
  mc_allow_nan :: bool

section \<open>Value generators (generators.py)\<close>

text \<open>
  The pseudo-random generator of numpy is external. Its state has an abstract type
  \<open>'g\<close>; \<open>default_rng seed\<close> is the state a seed gives, and each draw is a function of
  the state and its arguments that returns the value drawn (already converted by
  \<open>float\<close>) with the next state, or the exception numpy raises on arguments it
  rejects.
\<close>

record 'g numpy_random =
  default_rng :: "int \<Rightarrow> 'g"
  rng_poisson :: "'g \<Rightarrow> pyfloat \<Rightarrow> py_error + (pyfloat \<times> 'g)"
  rng_normal :: "'g \<Rightarrow> pyfloat \<Rightarrow> pyfloat \<Rightarrow> py_error + (pyfloat \<times> 'g)"
  rng_binomial :: "'g \<Rightarrow> int \<Rightarrow> pyfloat \<Rightarrow> py_error + (pyfloat \<times> 'g)"
  rng_lognormal :: "'g \<Rightarrow> pyfloat \<Rightarrow> pyfloat \<Rightarrow> py_error + (pyfloat \<times> 'g)"
  rng_exponential :: "'g \<Rightarrow> pyfloat \<Rightarrow> py_error + (pyfloat \<times> 'g)"
  rng_choice :: "'g \<Rightarrow> nat \<Rightarrow> pyfloat list \<Rightarrow> py_error + (nat \<times> 'g)"

text \<open>\<open>x or d\<close> for an optional float: \<open>None\<close> and 0 are false, \<open>NaN\<close> is true.\<close>

fun float_or :: "pyfloat option \<Rightarrow> pyfloat \<Rightarrow> pyfloat" where
  "float_or None d = d"
| "float_or (Some x) d = (if x = Fin 0 then d else x)"

fun int_or :: "int option \<Rightarrow> int \<Rightarrow> int" where
  "int_or None d = d"
| "int_or (Some x) d = (if x = 0 then d else x)"

text \<open>\<open>max(0, x)\<close>: \<open>x\<close> when \<open>x > 0\<close>, else the first argument 0 (also for \<open>NaN\<close>).\<close>

definition max0 :: "pyfloat \<Rightarrow> pyfloat" where
  "max0 x = (if pf_gt x (Fin 0) then x else Fin 0)"

fun pf_sin :: "pyfloat \<Rightarrow> pyfloat" where
  "pf_sin (Fin x) = Fin (sin x)"
| "pf_sin NaN = NaN"

text \<open>\<open>a / b\<close> on Python floats raises on a zero divisor.\<close>

fun py_div :: "pyfloat \<Rightarrow> pyfloat \<Rightarrow> py_error + pyfloat" where
  "py_div (Fin a) (Fin b) = (if b = 0 then Inl ZeroDivisionError else Inr (Fin (a / b)))"
| "py_div _ _ = Inr NaN"

text \<open>\<open>np.clip(v, lo, hi)\<close>, the minimum with \<open>hi\<close> of the maximum with \<open>lo\<close>.\<close>

fun np_clip :: "pyfloat \<Rightarrow> pyfloat \<Rightarrow> pyfloat \<Rightarrow> pyfloat" where
  "np_clip (Fin v) (Fin lo) (Fin hi) = Fin (min (max v lo) hi)"
| "np_clip _ _ _ = NaN"

datatype generator_class = CounterGenerator | GaugeGenerator | HistogramGenerator | SummaryGenerator

record 'g MetricGenerator =
  g_class :: generator_class
  g_name :: string
  g_metric_type :: string
  label_combinations :: "labels list"
  g_config :: MetricConfig
  rng :: 'g
  g_state :: "string \<rightharpoonup> pyfloat"

text \<open>\<open>MetricGenerator.__init__\<close>: the metric's own seed when it has one, else the
  global seed.\<close>

definition MetricGenerator_init ::
  "'g numpy_random \<Rightarrow> generator_class \<Rightarrow> string \<Rightarrow> string \<Rightarrow> labels list \<Rightarrow> MetricConfig \<Rightarrow> int
     \<Rightarrow> 'g MetricGenerator" where
  "MetricGenerator_init np cls nm metric_type label_combos config global_seed =
     (let seed = (case mc_seed config of Some s \<Rightarrow> s | None \<Rightarrow> global_seed) in
      \<lparr>g_class = cls, g_name = nm, g_metric_type = metric_type,
       label_combinations = label_combos, g_config = config,
       rng = default_rng np seed, g_state = Map.empty\<rparr>)"

text \<open>A draw from \<open>self.rng\<close>: the generator keeps the next state; a draw that raises
  leaves it as it was.\<close>

definition draw ::
  "('g \<Rightarrow> py_error + (pyfloat \<times> 'g)) \<Rightarrow> 'g MetricGenerator
     \<Rightarrow> (py_error + pyfloat) \<times> 'g MetricGenerator" where
  "draw f self =
     (case f (rng self) of
        Inl e \<Rightarrow> (Inl e, self)
      | Inr (x, g') \<Rightarrow> (Inr x, self\<lparr>rng := g'\<rparr>))"

text \<open>\<open>MetricGenerator._apply_diurnal_modulation\<close>.\<close>

definition apply_diurnal_modulation :: "MetricConfig \<Rightarrow> int \<Rightarrow> pyfloat \<Rightarrow> pyfloat" where
  "apply_diurnal_modulation config t_s base_value =
     (case mc_diurnal_amp config of
        None \<Rightarrow> base_value
      | Some amp \<Rightarrow>
          if amp = Fin 0 then base_value
          else
            (let phase = Fin (real_of_int (t_s mod 86400) / 86400);
                 phase_offset = float_or (mc_diurnal_phase config) (Fin 0);
                 modulation = pf_add (Fin 1)
                     (pf_mul amp (pf_sin (pf_mul (Fin (2 * pi)) (pf_add phase phase_offset))))
             in pf_mul base_value modulation))"

text \<open>\<open>MetricGenerator._clamp_value\<close>; unpacking a clamp list that has not two
  elements raises.\<close>

definition clamp_value :: "MetricConfig \<Rightarrow> pyfloat \<Rightarrow> py_error + pyfloat" where
  "clamp_value config v =
     (case mc_clamp config of
        None \<Rightarrow> Inr v
      | Some [] \<Rightarrow> Inr v
      | Some [min_val, max_val] \<Rightarrow> Inr (np_clip v min_val max_val)
      | Some _ \<Rightarrow> Inl ValueError)"

text \<open>\<open>MetricGenerator._handle_nan\<close>; \<open>None\<close> drops the point.\<close>

definition handle_nan :: "MetricConfig \<Rightarrow> pyfloat \<Rightarrow> pyfloat option" where
  "handle_nan config v =
     (if isnan v then (if mc_allow_nan config then Some v else None) else Some v)"

subsection \<open>CounterGenerator\<close>

definition counter_generate_poisson ::
  "'g numpy_random \<Rightarrow> 'g MetricGenerator \<Rightarrow> int \<Rightarrow> (py_error + pyfloat) \<times> 'g MetricGenerator" where
  "counter_generate_poisson np self t_s =
     (let base_rate = float_or (mc_base_rate (g_config self)) (Fin 1);
          rate = apply_diurnal_modulation (g_config self) t_s base_rate
      in draw (\<lambda>g. rng_poisson np g rate) self)"

text \<open>
  \<open>CounterGenerator.tick\<close>. The result of \<open>list(generator.tick(t))\<close> is the list of
  points, or the exception that ended the iteration; the state written before an
  exception stays written.
\<close>

fun counter_loop ::
  "'g numpy_random \<Rightarrow> int \<Rightarrow> labels list \<Rightarrow> 'g MetricGenerator
     \<Rightarrow> (py_error + SeriesPoint list) \<times> 'g MetricGenerator" where
  "counter_loop np t_s [] self = (Inr [], self)"
| "counter_loop np t_s (lbls # rest) self =
     (let algorithm = mc_algorithm (g_config self);
          lkey = label_key lbls;
          (drawn, self1) =
             (if algorithm = ''poisson'' then counter_generate_poisson np self t_s
              else if algorithm = ''constant''
                then (Inr (float_or (mc_base_rate (g_config self)) (Fin 1)), self)
              else counter_generate_poisson np self t_s)
      in case drawn of
           Inl e \<Rightarrow> (Inl e, self1)
         | Inr increment0 \<Rightarrow>
             (let increment = max0 increment0;
                  current = dict_get (g_state self1) lkey (Fin 0);
                  new_value = pf_add current increment;
                  self2 = self1\<lparr>g_state := (g_state self1)(lkey \<mapsto> new_value)\<rparr>;
                  point = \<lparr>sp_name = g_name self, sp_labels = lbls, sp_value = new_value\<rparr>
              in case counter_loop np t_s rest self2 of
                   (Inl e, self3) \<Rightarrow> (Inl e, self3)
                 | (Inr points, self3) \<Rightarrow> (Inr (point # points), self3)))"

definition counter_tick ::
  "'g numpy_random \<Rightarrow> 'g MetricGenerator \<Rightarrow> int
     \<Rightarrow> (py_error + SeriesPoint list) \<times> 'g MetricGenerator" where
  "counter_tick np self t_s = counter_loop np t_s (label_combinations self) self"

subsection \<open>GaugeGenerator\<close>

definition gauge_generate_random_walk ::
  "'g numpy_random \<Rightarrow> 'g MetricGenerator \<Rightarrow> string \<Rightarrow> (py_error + pyfloat) \<times> 'g MetricGenerator" where
  "gauge_generate_random_walk np self lkey =
     (let self1 = (if g_state self lkey = None
                   then self\<lparr>g_state := (g_state self)(lkey \<mapsto> float_or (mc_start (g_config self)) (Fin 0))\<rparr>
                   else self);
          step = float_or (mc_step (g_config self)) (Fin (1 / 10))
      in case draw (\<lambda>g. rng_normal np g (Fin 0) step) self1 of
           (Inl e, self2) \<Rightarrow> (Inl e, self2)
         | (Inr delta, self2) \<Rightarrow>
             (let new_value = pf_add (dict_get (g_state self2) lkey (Fin 0)) delta
              in (Inr new_value, self2\<lparr>g_state := (g_state self2)(lkey \<mapsto> new_value)\<rparr>)))"

definition gauge_generate_sine :: "MetricConfig \<Rightarrow> int \<Rightarrow> pyfloat" where
  "gauge_generate_sine config t_s =
     (let period = int_or (mc_period_s config) 3600;
          amplitude = pf_sub (float_or (mc_max config) (Fin 1)) (float_or (mc_min config) (Fin 0));
          baseline = pf_mul (pf_add (float_or (mc_max config) (Fin 1))
                                    (float_or (mc_min config) (Fin 0))) (Fin (1 / 2));
          phase = Fin (real_of_int (t_s mod period) / real_of_int period)
      in pf_add baseline
           (pf_mul (pf_mul amplitude (Fin (1 / 2))) (pf_sin (pf_mul (Fin (2 * pi)) phase))))"

definition gauge_generate_bernoulli ::
  "'g numpy_random \<Rightarrow> 'g MetricGenerator \<Rightarrow> (py_error + pyfloat) \<times> 'g MetricGenerator" where
  "gauge_generate_bernoulli np self =
     (let p = float_or (mc_p (g_config self)) (Fin (1 / 2))
      in draw (\<lambda>g. rng_binomial np g 1 p) self)"

definition gauge_generate_sawtooth :: "MetricConfig \<Rightarrow> int \<Rightarrow> pyfloat" where
  "gauge_generate_sawtooth config t_s =
     (let period = int_or (mc_period_s config) 3600;
          min_val = float_or (mc_min config) (Fin 0);
          max_val = float_or (mc_max config) (Fin 1);
          phase = Fin (real_of_int (t_s mod period) / real_of_int period)
      in pf_add min_val (pf_mul (pf_sub max_val min_val) phase))"

text \<open>\<open>GaugeGenerator.tick\<close>.\<close>

fun gauge_loop ::
  "'g numpy_random \<Rightarrow> int \<Rightarrow> labels list \<Rightarrow> 'g MetricGenerator
     \<Rightarrow> (py_error + SeriesPoint list) \<times> 'g MetricGenerator" where
  "gauge_loop np t_s [] self = (Inr [], self)"
| "gauge_loop np t_s (lbls # rest) self =
     (let algorithm = mc_algorithm (g_config self);
          lkey = label_key lbls;
          (drawn, self1) =
             (if algorithm = ''random_walk'' then gauge_generate_random_walk np self lkey
              else if algorithm = ''sine'' then (Inr (gauge_generate_sine (g_config self) t_s), self)
              else if algorithm = ''bernoulli'' then gauge_generate_bernoulli np self
              else if algorithm = ''sawtooth''
                then (Inr (gauge_generate_sawtooth (g_config self) t_s), self)
              else if algorithm = ''constant''
                then (Inr (float_or (mc_start (g_config self)) (Fin 0)), self)
              else gauge_generate_random_walk np self lkey)
      in case drawn of
           Inl e \<Rightarrow> (Inl e, self1)
         | Inr v0 \<Rightarrow>
             (case clamp_value (g_config self1) v0 of
                Inl e \<Rightarrow> (Inl e, self1)
              | Inr v1 \<Rightarrow>
                  (case gauge_loop np t_s rest self1 of
                     (Inl e, self2) \<Rightarrow> (Inl e, self2)
                   | (Inr points, self2) \<Rightarrow>
                       (case handle_nan (g_config self1) v1 of
                          None \<Rightarrow> (Inr points, self2)
                        | Some v \<Rightarrow>
                            (Inr (\<lparr>sp_name = g_name self, sp_labels = lbls, sp_value = v\<rparr>
                                  # points), self2)))))"

definition gauge_tick ::
  "'g numpy_random \<Rightarrow> 'g MetricGenerator \<Rightarrow> int
     \<Rightarrow> (py_error + SeriesPoint list) \<times> 'g MetricGenerator" where
  "gauge_tick np self t_s = gauge_loop np t_s (label_combinations self) self"

subsection \<open>HistogramGenerator and SummaryGenerator\<close>

text \<open>\<open>_generate_lognormal\<close> and \<open>_generate_exponential\<close>, the same in both classes.\<close>

definition generate_lognormal ::
  "'g numpy_random \<Rightarrow> 'g MetricGenerator \<Rightarrow> (py_error + pyfloat) \<times> 'g MetricGenerator" where
  "generate_lognormal np self =
     (let mu = float_or (mc_mu (g_config self)) (Fin 0);
          sigma = float_or (mc_sigma (g_config self)) (Fin 1)
      in draw (\<lambda>g. rng_lognormal np g mu sigma) self)"

definition generate_exponential ::
  "'g numpy_random \<Rightarrow> 'g MetricGenerator \<Rightarrow> (py_error + pyfloat) \<times> 'g MetricGenerator" where
  "generate_exponential np self =
     (let lam = float_or (mc_lam (g_config self)) (Fin 1)
      in case py_div (Fin 1) lam of
           Inl e \<Rightarrow> (Inl e, self)
         | Inr scale \<Rightarrow> draw (\<lambda>g. rng_exponential np g scale) self)"

text \<open>\<open>HistogramGenerator._generate_mixture\<close>.\<close>

definition generate_mixture ::
  "'g numpy_random \<Rightarrow> 'g MetricGenerator \<Rightarrow> (py_error + pyfloat) \<times> 'g MetricGenerator" where
  "generate_mixture np self =
     (case mc_components (g_config self) of
        None \<Rightarrow> generate_lognormal np self
      | Some [] \<Rightarrow> generate_lognormal np self
      | Some components \<Rightarrow>
          (let weights = map comp_weight components;
               total_weight = pf_sum weights
           in case try_map (\<lambda>w. py_div w total_weight) weights of
                Inl e \<Rightarrow> (Inl e, self)
              | Inr normalized_weights \<Rightarrow>
                  (case rng_choice np (rng self) (length components) normalized_weights of
                     Inl e \<Rightarrow> (Inl e, self)
                   | Inr (component_idx, g') \<Rightarrow>
                       (let self1 = self\<lparr>rng := g'\<rparr> in
                        if component_idx < length components then
                          (let component = components ! component_idx in
                           if comp_type component = ''lognormal'' then
                             (let mu = float_or (comp_mu component) (Fin 0);
                                  sigma = float_or (comp_sigma component) (Fin 1)
                              in draw (\<lambda>g. rng_lognormal np g mu sigma) self1)
                           else if comp_type component = ''exponential'' then
                             (let lam = float_or (comp_lam component) (Fin 1)
                              in case py_div (Fin 1) lam of
                                   Inl e \<Rightarrow> (Inl e, self1)
                                 | Inr scale \<Rightarrow> draw (\<lambda>g. rng_exponential np g scale) self1)
                           else generate_lognormal np self1)
                        else (Inl IndexError, self1)))))"

text \<open>\<open>HistogramGenerator.tick\<close>: a point is yielded when \<open>value is not None and
  value >= 0\<close>.\<close>

fun histogram_loop ::
  "'g numpy_random \<Rightarrow> int \<Rightarrow> labels list \<Rightarrow> 'g MetricGenerator
     \<Rightarrow> (py_error + SeriesPoint list) \<times> 'g MetricGenerator" where
  "histogram_loop np t_s [] self = (Inr [], self)"
| "histogram_loop np t_s (lbls # rest) self =
     (let algorithm = mc_algorithm (g_config self);
          (drawn, self1) =
             (if algorithm = ''lognormal'' then generate_lognormal np self
              else if algorithm = ''exponential'' then generate_exponential np self
              else if algorithm = ''mixture'' then generate_mixture np self
              else generate_lognormal np self)
      in case drawn of
           Inl e \<Rightarrow> (Inl e, self1)
         | Inr v0 \<Rightarrow>
             (case histogram_loop np t_s rest self1 of
                (Inl e, self2) \<Rightarrow> (Inl e, self2)
              | (Inr points, self2) \<Rightarrow>
                  (case handle_nan (g_config self1) v0 of
                     None \<Rightarrow> (Inr points, self2)
                   | Some v \<Rightarrow>
                       if pf_ge v (Fin 0)
                       then (Inr (\<lparr>sp_name = g_name self, sp_labels = lbls, sp_value = v\<rparr>
                                  # points), self2)
                       else (Inr points, self2))))"

definition histogram_tick ::
  "'g numpy_random \<Rightarrow> 'g MetricGenerator \<Rightarrow> int
     \<Rightarrow> (py_error + SeriesPoint list) \<times> 'g MetricGenerator" where
  "histogram_tick np self t_s = histogram_loop np t_s (label_combinations self) self"

text \<open>\<open>SummaryGenerator.tick\<close>.\<close>

fun summary_loop ::
  "'g numpy_random \<Rightarrow> int \<Rightarrow> labels list \<Rightarrow> 'g MetricGenerator
     \<Rightarrow> (py_error + SeriesPoint list) \<times> 'g MetricGenerator" where
  "summary_loop np t_s [] self = (Inr [], self)"
| "summary_loop np t_s (lbls # rest) self =
     (let algorithm = mc_algorithm (g_config self);
          (drawn, self1) =
             (if algorithm = ''lognormal'' then generate_lognormal np self
              else if algorithm = ''exponential'' then generate_exponential np self
              else generate_lognormal np self)
      in case drawn of
           Inl e \<Rightarrow> (Inl e, self1)
         | Inr v0 \<Rightarrow>
             (case summary_loop np t_s rest self1 of
                (Inl e, self2) \<Rightarrow> (Inl e, self2)
              | (Inr points, self2) \<Rightarrow>
                  (case handle_nan (g_config self1) v0 of
                     None \<Rightarrow> (Inr points, self2)
                   | Some v \<Rightarrow>
                       if pf_ge v (Fin 0)
                       then (Inr (\<lparr>sp_name = g_name self, sp_labels = lbls, sp_value = v\<rparr>
                                  # points), self2)
                       else (Inr points, self2))))"

definition summary_tick ::
  "'g numpy_random \<Rightarrow> 'g MetricGenerator \<Rightarrow> int
     \<Rightarrow> (py_error + SeriesPoint list) \<times> 'g MetricGenerator" where
  "summary_tick np self t_s = summary_loop np t_s (label_combinations self) self"

subsection \<open>Dispatch and construction\<close>

text \<open>\<open>generator.tick(t_s)\<close>, resolved by the class of the generator.\<close>

definition tick ::
  "'g numpy_random \<Rightarrow> 'g MetricGenerator \<Rightarrow> int
     \<Rightarrow> (py_error + SeriesPoint list) \<times> 'g MetricGenerator" where
  "tick np self t_s =
     (case g_class self of
        CounterGenerator \<Rightarrow> counter_tick np self t_s
      | GaugeGenerator \<Rightarrow> gauge_tick np self t_s
      | HistogramGenerator \<Rightarrow> histogram_tick np self t_s
      | SummaryGenerator \<Rightarrow> summary_tick np self t_s)"

text \<open>\<open>create_generator\<close>.\<close>

definition create_generator ::
  "'g numpy_random \<Rightarrow> MetricConfig \<Rightarrow> labels list \<Rightarrow> int \<Rightarrow> py_error + 'g MetricGenerator" where
  "create_generator np config label_combos global_seed =
     (let metric_type = mc_type config; nm = mc_name config in
      if metric_type = ''counter'' then
        Inr (MetricGenerator_init np CounterGenerator nm metric_type label_combos config global_seed)
      else if metric_type = ''gauge'' then
        Inr (MetricGenerator_init np GaugeGenerator nm metric_type label_combos config global_seed)
      else if metric_type = ''histogram'' then
        Inr (MetricGenerator_init np HistogramGenerator nm metric_type label_combos config global_seed)
      else if metric_type = ''summary'' then
        Inr (MetricGenerator_init np SummaryGenerator nm metric_type label_combos config global_seed)
      else Inl ValueError)"

text \<open>One generator fed a sequence of tick timestamps: the result of each tick, in
  order, and the generator after the last.\<close>

fun run_ticks ::
  "'g numpy_random \<Rightarrow> 'g MetricGenerator \<Rightarrow> int list
     \<Rightarrow> (py_error + SeriesPoint list) list \<times> 'g MetricGenerator" where
  "run_ticks np self [] = ([], self)"
| "run_ticks np self (t_s # ts) =
     (let (out, self1) = tick np self t_s;
          (outs, self2) = run_ticks np self1 ts
      in (out # outs, self2))"

text \<open>A generator constructed by \<open>create_generator\<close> and fed a sequence of tick
  timestamps: the results of its ticks.\<close>

definition generated_sequence ::
  "'g numpy_random \<Rightarrow> MetricConfig \<Rightarrow> labels list \<Rightarrow> int \<Rightarrow> int list
     \<Rightarrow> py_error + (py_error + SeriesPoint list) list" where
  "generated_sequence np config label_combos global_seed ts =
     (case create_generator np config label_combos global_seed of
        Inl e \<Rightarrow> Inl e
      | Inr gen \<Rightarrow> Inr (fst (run_ticks np gen ts)))"

section \<open>The spike multiplier of the tick loop (engine.py)\<close>



section \<open>Feeding one series\<close>

text \<open>The points of one series over successive ticks, for a list of finite values.\<close>

definition series_points :: "string \<Rightarrow> labels \<Rightarrow> real list \<Rightarrow> SeriesPoint list" where
  "series_points nm lbls vs =
     map (\<lambda>v. \<lparr>sp_name = nm, sp_labels = lbls, sp_value = Fin v\<rparr>) vs"

text \<open>Every step of a series, from the value \<open>p\<close> tracked before it, is a difference that
  binary64 holds: the exporter's subtraction rounds none of them.\<close>

fun exact_steps :: "real \<Rightarrow> real list \<Rightarrow> bool" where
  "exact_steps p [] = True"
| "exact_steps p (v # vs) = (round64 (v - p) = v - p \<and> exact_steps v vs)"

section \<open>Examples\<close>

subsection \<open>Stand-ins for the external libraries\<close>

text \<open>
  A numpy whose generator state is the list of values still to be drawn, given by the
  seed: every draw returns the head of the list, and raises on an empty list.
\<close>

definition next_draw :: "pyfloat list \<Rightarrow> py_error + (pyfloat \<times> pyfloat list)" where
  "next_draw g = (case g of [] \<Rightarrow> Inl ValueError | x # g' \<Rightarrow> Inr (x, g'))"

definition scripted_numpy :: "(int \<Rightarrow> pyfloat list) \<Rightarrow> (pyfloat list) numpy_random" where
  "scripted_numpy script =
     \<lparr>default_rng = script,
      rng_poisson = (\<lambda>g rate. next_draw g),
      rng_normal = (\<lambda>g loc scale. next_draw g),
      rng_binomial = (\<lambda>g n p. next_draw g),
      rng_lognormal = (\<lambda>g mean sigma. next_draw g),
      rng_exponential = (\<lambda>g scale. next_draw g),
      rng_choice = (\<lambda>g n p. case g of [] \<Rightarrow> Inl ValueError | x # g' \<Rightarrow> Inr (0, g'))\<rparr>"

text \<open>Formatting operators that reject every template, and a digest that is the length
  of the text.\<close>

definition rejecting_format :: py_format where
  "rejecting_format =
     \<lparr>percent_format = (\<lambda>fmt i. Inl ValueError), str_format = (\<lambda>fmt i. Inl ValueError)\<rparr>"

text \<open>Formatting operators of which \<open>%\<close> rejects every template and \<open>str.format\<close>
  returns the template as it is.\<close>

definition percent_rejecting_format :: py_format where
  "percent_rejecting_format =
     \<lparr>percent_format = (\<lambda>fmt i. Inl ValueError), str_format = (\<lambda>fmt i. Inr fmt)\<rparr>"

definition length_digest :: "string \<Rightarrow> nat" where
  "length_digest s = length s"

subsection \<open>An example profile and configuration\<close>

text \<open>A profile with one label of three values, and a metric configuration with no
  optional parameter set.\<close>

definition example_profile :: "int option \<Rightarrow> string \<Rightarrow> CardinalityProfile" where
  "example_profile cap strategy =
     \<lparr>cp_labels = [(''region'', \<lparr>lvs_values = Some [''us-east'', ''eu'', ''apac''],
                                  lvs_range = None, lvs_fmt = None\<rparr>)],
      series_cap = cap, sampling_strategy = strategy\<rparr>"

definition example_config :: "string \<Rightarrow> string \<Rightarrow> string \<Rightarrow> MetricConfig" where
  "example_config nm metric_type algorithm =
     \<lparr>mc_name = nm, mc_type = metric_type, mc_profile = ''default'', mc_algorithm = algorithm,
      mc_labels = None, mc_seed = None, mc_base_rate = None, mc_diurnal_amp = None,
      mc_diurnal_phase = Some (Fin 0), mc_start = None, mc_step = None, mc_clamp = None,
      mc_mu = None, mc_sigma = None, mc_lam = None, mc_p = None, mc_buckets = None,
      mc_components = None, mc_min = None, mc_max = None, mc_period_s = None,
      mc_allow_nan = False\<rparr>"

text \<open>Two label combinations of one label.\<close>

definition example_combos :: "labels list" where
  "example_combos = [[(''region'', ''us'')], [(''region'', ''eu'')]]"

subsection \<open>An example registration\<close>

text \<open>One metric registered on both exporters with the default prefixes, and the labels
  of one of its series.\<close>

definition example_labels :: labels where
  "example_labels = [(''region'', ''us''), (''az'', ''a'')]"

definition example_otel :: "string \<Rightarrow> string \<Rightarrow> OTELExporter" where
  "example_otel metric_name metric_type =
     otel_register_metric (OTELExporter_init ''otel_'') metric_name metric_type"

definition example_prom :: "string \<Rightarrow> string \<Rightarrow> PrometheusExporter" where
  "example_prom metric_name metric_type =
     prom_register_metric (PrometheusExporter_init ''prom_'' [metric_name]) metric_name metric_type
       [''region'', ''az'']"


text \<open>The labels of a second series of the metric, and the exporter after the first
  series has reported \<open>v\<close>.\<close>

definition other_labels :: labels where
  "other_labels = [(''region'', ''eu''), (''az'', ''b'')]"



section \<open>Reconciliation: facts shared by the properties below\<close>

lemma strip_prefix_append [simp]: "strip_prefix p (p @ b) = b"
  by (simp add: strip_prefix_def)

lemma otel_export_points_Nil [simp]: "otel_export_points self [] metric_types = ([], self)"
  by (simp add: otel_export_points_def)

lemma otel_export_points_Cons [simp]:
  "otel_export_points self (point # points) metric_types =
     (let base_name = strip_prefix (otel_prefix self) (sp_name point) in
      case metric_types base_name of
        None \<Rightarrow> otel_export_points self points metric_types
      | Some metric_type \<Rightarrow>
          if metric_type \<noteq> [] then
            (let (calls1, self1) = otel_export_point self point metric_type;
                 (calls2, self2) = otel_export_points self1 points metric_types
             in (calls1 @ calls2, self2))
          else otel_export_points self points metric_types)"
  unfolding otel_export_points_def otel_export_point_def by simp


lemma example_otel_simps:
  "otel_prefix (example_otel n t) = ''otel_''"
  "counter_state (example_otel n t) = Map.empty"
  "gauge_cumulative (example_otel n t) = Map.empty"
  "instruments (example_otel n ''counter'') n = Some (OtelCounter (''otel_'' @ n))"
  "instruments (example_otel n ''gauge'') n = Some (OtelUpDownCounter (''otel_'' @ n))"
  by (simp_all add: example_otel_def otel_register_metric_def OTELExporter_init_def Let_def)

lemma example_prom_simps:
  "prom_prefix (example_prom n t) = ''prom_''"
  "metrics (example_prom n ''counter'') n
     = Some \<lparr>pm_kind = PromCounter, pm_name = ''prom_'' @ n, pm_label_names = [''region'', ''az'']\<rparr>"
  "metrics (example_prom n ''gauge'') n
     = Some \<lparr>pm_kind = PromGauge, pm_name = ''prom_'' @ n, pm_label_names = [''region'', ''az'']\<rparr>"
  by (simp_all add: example_prom_def prom_register_metric_def PrometheusExporter_init_def Let_def)







section \<open>Binary64 rounding: facts shared by the properties below\<close>

lemma round_half_even_int: "m \<in> \<int> \<Longrightarrow> of_int (round_half_even m) = m"
  by (auto simp: round_half_even_def Ints_def)

lemma round64_at_exponent:
  assumes "x \<noteq> 0" and "2 powr of_int k \<le> \<bar>x\<bar>" and "\<bar>x\<bar> < 2 powr of_int (k + 1)"
  shows "round64 x = sgn x * of_int (round_half_even (\<bar>x\<bar> / 2 powr of_int (k - 52)))
                     * 2 powr of_int (k - 52)"
proof -
  have "\<lfloor>log 2 \<bar>x\<bar>\<rfloor> = k"
    using assms by (subst floor_log_eq_powr_iff) auto
  then show ?thesis using assms(1) by (simp add: round64_def Let_def)
qed

lemma round64_exact_scaled:
  assumes "x \<noteq> 0" and "2 powr of_int k \<le> \<bar>x\<bar>" and "\<bar>x\<bar> < 2 powr of_int (k + 1)"
    and "\<bar>x\<bar> / 2 powr of_int (k - 52) \<in> \<int>"
  shows "round64 x = x"
proof -
  have "round64 x = sgn x * (\<bar>x\<bar> / 2 powr of_int (k - 52)) * 2 powr of_int (k - 52)"
    using round64_at_exponent[OF assms(1-3)] round_half_even_int[OF assms(4)] by simp
  also have "\<dots> = sgn x * \<bar>x\<bar>" by simp
  also have "\<dots> = x" by (simp add: sgn_real_def abs_real_def)
  finally show ?thesis .
qed

lemma round64_int:
  assumes "x \<in> \<int>" and "\<bar>x\<bar> \<le> 2 ^ 53"
  shows "round64 x = x"
proof (cases "x = 0")
  case True
  then show ?thesis by (simp add: round64_def)
next
  case False
  obtain n :: int where n: "x = of_int n" using assms(1) by (auto simp: Ints_def)
  have n0: "n \<noteq> 0" using False n by simp
  then have ge1: "1 \<le> \<bar>x\<bar>" using n by (simp add: abs_if)
  define k where "k = \<lfloor>log 2 \<bar>x\<bar>\<rfloor>"
  have kb: "2 powr of_int k \<le> \<bar>x\<bar>" "\<bar>x\<bar> < 2 powr of_int (k + 1)"
    using floor_log_eq_powr_iff[of "\<bar>x\<bar>" 2 k] ge1 by (auto simp: k_def)
  have k0: "0 \<le> k" using ge1 by (simp add: k_def)
  have e53: "(2::real) powr of_int 53 = 2 ^ 53" by (simp add: powr_int)
  have "2 powr of_int k \<le> (2::real) powr of_int 53"
    using kb(1) assms(2) unfolding e53 by linarith
  then have "real_of_int k \<le> real_of_int 53"
    by (subst (asm) powr_le_cancel_iff) simp_all
  then have k53: "k \<le> 53" by simp
  show ?thesis
  proof (cases "k \<le> 52")
    case True
    have "(2::real) powr of_int (k - 52)
          = (if 0 \<le> k - 52 then 2 ^ nat (k - 52) else 1 / 2 ^ nat (- (k - 52)))"
      by (rule powr_int) simp
    also have "\<dots> = 1 / 2 ^ nat (52 - k)"
      using True by (cases "k = 52") simp_all
    finally have "(2::real) powr of_int (k - 52) = 1 / 2 ^ nat (52 - k)" .
    then have "\<bar>x\<bar> / 2 powr of_int (k - 52) = of_int (\<bar>n\<bar> * 2 ^ nat (52 - k))"
      using n by simp
    then have "\<bar>x\<bar> / 2 powr of_int (k - 52) \<in> \<int>" by (metis Ints_of_int)
    from round64_exact_scaled[OF False kb this] show ?thesis .
  next
    case False
    then have k: "k = 53" using k53 by simp
    have "2 ^ 53 \<le> \<bar>x\<bar>" using kb(1) k by (simp add: powr_int)
    then have ax: "\<bar>x\<bar> = 2 ^ 53" using assms(2) by simp
    have "\<bar>x\<bar> / 2 powr of_int (k - 52) = of_int (2 ^ 52)" using k ax by simp
    then have "\<bar>x\<bar> / 2 powr of_int (k - 52) \<in> \<int>" by (metis Ints_of_int)
    from round64_exact_scaled[OF \<open>x \<noteq> 0\<close> kb this] show ?thesis .
  qed
qed

lemma round64_small_int [simp]: "x \<in> \<int> \<Longrightarrow> \<bar>x\<bar> \<le> 9007199254740992 \<Longrightarrow> round64 x = x"
  using round64_int[of x] by simp

lemma round64_tie_example [simp]: "round64 9007199254740993 = 9007199254740992"
proof -
  have a: "(2::real) powr of_int 53 \<le> \<bar>9007199254740993\<bar>"
    and b: "\<bar>9007199254740993 :: real\<bar> < 2 powr of_int (53 + 1)"
    by (simp_all add: powr_int)
  have m: "\<bar>9007199254740993 :: real\<bar> / 2 powr of_int (53 - 52) = 4503599627370496 + 1 / 2"
    by (simp add: powr_int)
  have fl: "\<lfloor>4503599627370496 + 1 / 2 :: real\<rfloor> = 4503599627370496"
    by (simp add: floor_eq_iff)
  have r: "round_half_even (4503599627370496 + 1 / 2) = 4503599627370496"
    unfolding round_half_even_def Let_def fl by simp
  from round64_at_exponent[of "9007199254740993" 53, OF _ a b]
  show ?thesis unfolding m r by (simp add: powr_int)
qed

lemma round64_big_example [simp]: "round64 9007199254740994 = 9007199254740994"
proof -
  have a: "(2::real) powr of_int 53 \<le> \<bar>9007199254740994\<bar>"
    and b: "\<bar>9007199254740994 :: real\<bar> < 2 powr of_int (53 + 1)"
    by (simp_all add: powr_int)
  have "\<bar>9007199254740994 :: real\<bar> / 2 powr of_int (53 - 52) = of_int 4503599627370497"
    by (simp add: powr_int)
  then have m: "\<bar>9007199254740994 :: real\<bar> / 2 powr of_int (53 - 52) \<in> \<int>"
    by (metis Ints_of_int)
  from round64_exact_scaled[of "9007199254740994" 53, OF _ a b m] show ?thesis by simp
qed




lemma exact_steps_int:
  assumes "p \<in> \<int>" and "0 \<le> p" and "sorted (p # vs)"
    and "\<forall>v \<in> set vs. v \<in> \<int> \<and> v \<le> 2 ^ 53"
  shows "exact_steps p vs"
  using assms
proof (induction vs arbitrary: p)
  case Nil
  then show ?case by simp
next
  case (Cons v vs)
  from Cons.prems have pv: "p \<le> v" and vi: "v \<in> \<int>" and vb: "v \<le> 2 ^ 53" by simp_all
  have "v - p \<in> \<int>" using vi Cons.prems(1) by (rule Ints_diff)
  moreover have "\<bar>v - p\<bar> \<le> 2 ^ 53" using pv vb Cons.prems(2) by simp
  ultimately have r: "round64 (v - p) = v - p" by (rule round64_int)
  have "exact_steps v vs"
    using Cons.IH[of v] vi pv Cons.prems by simp
  with r show ?case by simp
qed

section \<open>The push-model exporter over binary64\<close>

lemma otel_export_points64_Nil [simp]: "otel_export_points64 self [] metric_types = ([], self)"
  by (simp add: otel_export_points64_def)

lemma otel_export_points64_Cons [simp]:
  "otel_export_points64 self (point # points) metric_types =
     (let base_name = strip_prefix (otel_prefix self) (sp_name point) in
      case metric_types base_name of
        None \<Rightarrow> otel_export_points64 self points metric_types
      | Some metric_type \<Rightarrow>
          if metric_type \<noteq> [] then
            (let (calls1, self1) = otel_export_point64 self point metric_type;
                 (calls2, self2) = otel_export_points64 self1 points metric_types
             in (calls1 @ calls2, self2))
          else otel_export_points64 self points metric_types)"
  unfolding otel_export_points64_def otel_export_point64_def by simp

lemma otel_counter_step64:
  assumes "instruments self base = Some instr" and "has_add instr"
    and "dict_get (counter_state self) (series_key base lbls) (Fin 0) = Fin p"
  shows "otel_export_point64 self \<lparr>sp_name = otel_prefix self @ base, sp_labels = lbls, sp_value = Fin v\<rparr> ''counter'' =
    (if 0 < round64 (v - p) then
       ([Add instr (Fin (round64 (v - p))) lbls],
        self\<lparr>counter_state := (counter_state self)(series_key base lbls \<mapsto> Fin v)\<rparr>)
     else if round64 (v - p) < 0 then
       ([Add instr (Fin v) lbls],
        self\<lparr>counter_state := (counter_state self)(series_key base lbls \<mapsto> Fin v)\<rparr>)
     else ([], self))"
  using assms by (simp add: otel_export_point64_def otel_export_point_with_def Let_def)

lemma otel_export_point_with_frame:
  assumes "otel_export_point_with sub self point ty = (calls, self')"
  shows "instruments self' = instruments self" and "otel_prefix self' = otel_prefix self"
    and "\<forall>c \<in> set calls. call_labels c = sp_labels point"
    and "k \<noteq> series_key (strip_prefix (otel_prefix self) (sp_name point)) (sp_labels point)
         \<Longrightarrow> counter_state self' k = counter_state self k"
  using assms
  by (auto simp: otel_export_point_with_def Let_def split: option.splits if_splits)

lemma otel_counter_feed64:
  assumes "instruments self base = Some instr" and "has_add instr"
    and "mt base = Some ''counter''"
    and "\<forall>pt \<in> set pts. sp_name pt = otel_prefix self @ base"
    and "\<forall>pt \<in> set pts. series_key base (sp_labels pt) = series_key base lbls
                          \<longrightarrow> sp_labels pt = lbls"
    and "map sp_value (filter (\<lambda>pt. sp_labels pt = lbls) pts) = map Fin vs"
    and "dict_get (counter_state self) (series_key base lbls) (Fin 0) = Fin p"
    and "sorted (p # vs)" and "exact_steps p vs"
    and "otel_export_points64 self pts mt = (calls, self')"
  shows "foldl pf_add (Fin a) (map call_amount (filter (\<lambda>c. call_labels c = lbls) calls))
           = Fin (a + (last (p # vs) - p))
       \<and> dict_get (counter_state self') (series_key base lbls) (Fin 0) = Fin (last (p # vs))"
  using assms
proof (induction pts arbitrary: self p a vs calls self')
  case Nil
  then show ?case by simp
next
  case (Cons pt pts)
  let ?key = "series_key base lbls"
  have nm: "sp_name pt = otel_prefix self @ base" using Cons.prems(4) by simp
  obtain c1 s1 where st: "otel_export_point64 self pt ''counter'' = (c1, s1)"
    by (cases "otel_export_point64 self pt ''counter''")
  obtain c2 s2 where rest: "otel_export_points64 s1 pts mt = (c2, s2)"
    by (cases "otel_export_points64 s1 pts mt")
  from Cons.prems(10) st rest Cons.prems(3) nm
  have calls: "calls = c1 @ c2" and s': "self' = s2" by simp_all
  from st have st': "otel_export_point_with pf_sub64 self pt ''counter'' = (c1, s1)"
    by (simp add: otel_export_point64_def)
  note fr = otel_export_point_with_frame[OF st']
  have i1: "instruments s1 base = Some instr" using fr(1) Cons.prems(1) by simp
  have n1: "\<forall>pt \<in> set pts. sp_name pt = otel_prefix s1 @ base"
    using Cons.prems(4) fr(2) by simp
  have k1: "\<forall>pt \<in> set pts. series_key base (sp_labels pt) = ?key \<longrightarrow> sp_labels pt = lbls"
    using Cons.prems(5) by simp
  show ?case
  proof (cases "sp_labels pt = lbls")
    case True
    from Cons.prems(6) True obtain v vs' where vs: "vs = v # vs'"
      and pv: "sp_value pt = Fin v"
      and rest_vs: "map sp_value (filter (\<lambda>pt. sp_labels pt = lbls) pts) = map Fin vs'"
      by (cases vs) auto
    have pt: "pt = \<lparr>sp_name = otel_prefix self @ base, sp_labels = lbls, sp_value = Fin v\<rparr>"
      using nm True pv by simp
    from Cons.prems(8,9) vs have le: "p \<le> v" and sv: "sorted (v # vs')"
      and ex: "round64 (v - p) = v - p" and exs: "exact_steps v vs'" by simp_all
    from st otel_counter_step64[OF Cons.prems(1,2,7), of v] pt ex le
    have c1: "c1 = (if 0 < v - p then [Add instr (Fin (v - p)) lbls] else [])"
      and t1: "dict_get (counter_state s1) ?key (Fin 0) = Fin v"
      using Cons.prems(7) by (auto simp: dict_get_def split: if_splits)
    note IH = Cons.IH[OF i1 Cons.prems(2,3) n1 k1 rest_vs t1 sv exs rest]
    show ?thesis
      using IH[of "a + (v - p)"] IH[of a] c1 calls s' vs le by (auto split: if_splits)
  next
    case False
    then have kne: "?key \<noteq> series_key (strip_prefix (otel_prefix self) (sp_name pt)) (sp_labels pt)"
      using Cons.prems(5) nm by auto
    have t1: "dict_get (counter_state s1) ?key (Fin 0) = Fin p"
      using fr(4)[OF kne] Cons.prems(7) by (simp add: dict_get_def)
    have f1: "filter (\<lambda>c. call_labels c = lbls) c1 = []"
      using fr(3) False by (auto simp: filter_empty_conv)
    have rest_vs: "map sp_value (filter (\<lambda>pt. sp_labels pt = lbls) pts) = map Fin vs"
      using Cons.prems(6) False by simp
    note IH = Cons.IH[OF i1 Cons.prems(2,3) n1 k1 rest_vs t1 Cons.prems(8,9) rest]
    show ?thesis using IH[of a] calls s' f1 by simp
  qed
qed

lemma prom_counter_run:
  assumes "metrics prom base = Some pm" and "pm_kind pm = PromCounter"
    and "labels_accepted pm lbls" and "mt base = Some ''counter''"
  shows "prom_export_points prom (series_points (prom_prefix prom @ base) lbls vs) mt
         = map (\<lambda>v. ValueSet pm lbls (Fin v)) vs"
  using assms by (induction vs) (auto simp: series_points_def prom_export_point_def)

lemma otel_counter_example64:
  assumes "instruments self base = Some instr" and "has_add instr"
    and "mt base = Some ''counter''"
    and "counter_state self (series_key base lbls) = None"
  shows "fst (otel_export_points64 self (series_points (otel_prefix self @ base) lbls [5, 12, 18, 25, 25]) mt)
       = [Add instr (Fin 5) lbls, Add instr (Fin 7) lbls, Add instr (Fin 6) lbls, Add instr (Fin 7) lbls]"
  using assms
  by (simp add: series_points_def otel_export_point64_def otel_export_point_with_def Let_def dict_get_def)




section \<open>Label spaces and generators: facts shared by the properties below\<close>

lemma generate_label_values_empty_range:
  assumes "lvs_values spec = None" and "lvs_range spec = Some [start, endv]" and "endv < start"
  shows "generate_label_values py spec = Inr []"
  using assms by (simp add: generate_label_values_def Let_def)


lemma try_map_Inr_set:
  assumes "try_map f xs = Inr ys" and "x \<in> set xs" and "f x = Inr y"
  shows "y \<in> set ys"
  using assms
  by (induction xs arbitrary: ys) (auto split: sum.splits)

lemma try_map_Inl_set:
  assumes "x \<in> set xs" and "f x = Inl e"
  shows "\<exists>e'. try_map f xs = Inl e'"
  using assms
  by (induction xs) (auto split: sum.splits)

lemma cartesian_product_empty_dim: "[] \<in> set ls \<Longrightarrow> cartesian_product ls = []"
  by (induction ls) auto

lemma apply_series_cap_Nil [simp]: "apply_series_cap md5 [] cap strategy = []"
  by (simp add: apply_series_cap_def slice_to_def)

lemma tick_no_series:
  assumes "label_combinations self = []"
  shows "tick np self t_s = (Inr [], self)"
  using assms
  by (cases "g_class self")
     (simp_all add: tick_def counter_tick_def gauge_tick_def histogram_tick_def summary_tick_def)

lemma create_generator_fields:
  assumes "create_generator np config combos seed = Inr gen"
  shows "label_combinations gen = combos" and "g_config gen = config"
    and "g_state gen = Map.empty" and "g_name gen = mc_name config"
    and "rng gen = default_rng np (case mc_seed config of Some s \<Rightarrow> s | None \<Rightarrow> seed)"
  using assms
  by (auto simp: create_generator_def MetricGenerator_init_def Let_def split: if_splits)


lemma slice_to_pos: "0 < n \<Longrightarrow> slice_to n xs = take (nat n) xs"
  by (simp add: slice_to_def)

lemma generate_label_space_uncapped:
  assumes "generate_label_space py md5_int (profile\<lparr>series_cap := None\<rparr>) additional = Inr product"
    and "series_cap profile = None"
  shows "generate_label_space py md5_int profile additional = Inr product"
  using assms
  by (auto simp: generate_label_space_def Let_def split: sum.splits option.splits if_splits)

lemma generate_label_space_cap:
  assumes "generate_label_space py md5_int (profile\<lparr>series_cap := None\<rparr>) additional = Inr product"
    and "series_cap profile = Some cap" and "0 \<le> cap"
  shows "generate_label_space py md5_int profile additional =
           (if cap \<noteq> 0 \<and> int (length product) > cap
            then Inr (apply_series_cap md5_int product cap (sampling_strategy profile))
            else Inr product)"
  using assms
  by (auto simp: generate_label_space_def Let_def split: sum.splits option.splits if_splits)

lemma sort_key_order_independent:
  assumes "mset ys = mset xs" and "inj_on f (set xs)"
  shows "sort_key f ys = sort_key f xs"
proof -
  have "set ys = set xs" using assms(1) by (metis set_mset_mset)
  then have inj: "inj_on f (set ys)" using assms(2) by simp
  have ms: "mset ys = mset (sort_key f xs)" using assms(1) by simp
  from ms inj show ?thesis
    by (rule sort_key_inj_key_eq) simp
qed


lemma inj_on_length_digest_example:
  "inj_on (label_hash length_digest)
     (set [[(''region'', ''us-east'')], [(''region'', ''eu'')], [(''region'', ''apac'')]])"
  by (simp add: label_hash_def length_digest_def label_key_def)


lemma pf_le_trans: "pf_le a b \<Longrightarrow> pf_le b c \<Longrightarrow> pf_le a c"
  by (cases a; cases b; cases c) auto

lemma pf_le_FinD: "pf_le a b \<Longrightarrow> \<exists>x y. a = Fin x \<and> b = Fin y \<and> x \<le> y"
  by (cases a; cases b) auto

lemma max0_nonneg: "\<exists>r. max0 x = Fin r \<and> 0 \<le> r"
  by (cases x) (auto simp: max0_def)

lemma draw_fields:
  assumes "draw f self = (res, self')"
  shows "g_state self' = g_state self" and "g_config self' = g_config self"
    and "g_name self' = g_name self" and "g_class self' = g_class self"
    and "label_combinations self' = label_combinations self"
  using assms by (auto simp: draw_def split: sum.splits prod.splits)

lemma counter_generate_poisson_fields:
  assumes "counter_generate_poisson np self t_s = (res, self')"
  shows "g_state self' = g_state self" and "g_config self' = g_config self"
    and "g_name self' = g_name self" and "g_class self' = g_class self"
    and "label_combinations self' = label_combinations self"
  using assms draw_fields[of _ self res self']
  by (auto simp: counter_generate_poisson_def Let_def)

text \<open>Every tracked total is finite, and no total of the first state is above the second.\<close>

lemma counter_loop_props:
  assumes "counter_loop np t_s combos self = (res, self')"
    and "\<forall>k. pf_le (dict_get (g_state self) k (Fin 0)) (dict_get (g_state self) k (Fin 0))"
  shows "(\<forall>k. pf_le (dict_get (g_state self) k (Fin 0)) (dict_get (g_state self') k (Fin 0)))
       \<and> g_config self' = g_config self \<and> g_name self' = g_name self
       \<and> g_class self' = g_class self \<and> label_combinations self' = label_combinations self
       \<and> (\<forall>pts. res = Inr pts \<longrightarrow>
             length pts = length combos
           \<and> (\<forall>i < length combos.
                 sp_labels (pts ! i) = combos ! i
               \<and> pf_le (dict_get (g_state self) (label_key (combos ! i)) (Fin 0)) (sp_value (pts ! i))
               \<and> pf_le (sp_value (pts ! i)) (dict_get (g_state self') (label_key (combos ! i)) (Fin 0))))"
  using assms
proof (induction combos arbitrary: self res self')
  case Nil
  then show ?case by auto
next
  case (Cons lbls rest)
  let ?alg = "mc_algorithm (g_config self)"
  let ?key = "label_key lbls"
  obtain drawn self1 where dr:
    "(if ?alg = ''poisson'' then counter_generate_poisson np self t_s
      else if ?alg = ''constant''
        then (Inr (float_or (mc_base_rate (g_config self)) (Fin 1)), self)
      else counter_generate_poisson np self t_s) = (drawn, self1)"
    by (cases "(if ?alg = ''poisson'' then counter_generate_poisson np self t_s
      else if ?alg = ''constant''
        then (Inr (float_or (mc_base_rate (g_config self)) (Fin 1)), self)
      else counter_generate_poisson np self t_s)")
  have f1: "g_state self1 = g_state self" "g_config self1 = g_config self"
    "g_name self1 = g_name self" "g_class self1 = g_class self"
    "label_combinations self1 = label_combinations self"
    using dr counter_generate_poisson_fields[of np self t_s drawn self1]
    by (auto split: if_splits)
  show ?case
  proof (cases drawn)
    case (Inl e)
    then have "res = Inl e" and "self' = self1"
      using Cons.prems(1) dr by (simp_all add: Let_def)
    then show ?thesis using f1 Cons.prems(2) by simp
  next
    case (Inr increment0)
    obtain r where r: "max0 increment0 = Fin r" "0 \<le> r" using max0_nonneg by blast
    obtain c where c: "dict_get (g_state self1) ?key (Fin 0) = Fin c"
      using Cons.prems(2) f1(1) pf_le_FinD by metis
    let ?new = "Fin (c + r)"
    let ?self2 = "self1\<lparr>g_state := (g_state self1)(?key \<mapsto> ?new)\<rparr>"
    let ?point = "\<lparr>sp_name = g_name self, sp_labels = lbls, sp_value = ?new\<rparr>"
    obtain res3 self3 where rec: "counter_loop np t_s rest ?self2 = (res3, self3)"
      by (cases "counter_loop np t_s rest ?self2")
    have step12: "\<forall>k. pf_le (dict_get (g_state self) k (Fin 0)) (dict_get (g_state ?self2) k (Fin 0))"
    proof
      fix k
      show "pf_le (dict_get (g_state self) k (Fin 0)) (dict_get (g_state ?self2) k (Fin 0))"
      proof (cases "k = ?key")
        case True
        then show ?thesis using c r f1(1) by (simp add: dict_get_def)
      next
        case False
        then show ?thesis using Cons.prems(2) f1(1) by (simp add: dict_get_def)
      qed
    qed
    have fin2: "\<forall>k. pf_le (dict_get (g_state ?self2) k (Fin 0)) (dict_get (g_state ?self2) k (Fin 0))"
    proof
      fix k
      from step12 obtain x y where "dict_get (g_state ?self2) k (Fin 0) = Fin y"
        using pf_le_FinD by blast
      then show "pf_le (dict_get (g_state ?self2) k (Fin 0)) (dict_get (g_state ?self2) k (Fin 0))"
        by simp
    qed
    note IH = Cons.IH[OF rec fin2]
    have res: "res = (case res3 of Inl e \<Rightarrow> Inl e | Inr points \<Rightarrow> Inr (?point # points))"
      and self': "self' = self3"
      using Cons.prems(1) dr Inr r c rec
      by (auto simp: Let_def split: sum.splits)
    have mono: "\<forall>k. pf_le (dict_get (g_state self) k (Fin 0)) (dict_get (g_state self') k (Fin 0))"
      using step12 IH self' pf_le_trans by blast
    have new2: "dict_get (g_state ?self2) ?key (Fin 0) = ?new" by (simp add: dict_get_def)
    have pts: "length pts = length (lbls # rest)
           \<and> (\<forall>i < length (lbls # rest).
                 sp_labels (pts ! i) = (lbls # rest) ! i
               \<and> pf_le (dict_get (g_state self) (label_key ((lbls # rest) ! i)) (Fin 0)) (sp_value (pts ! i))
               \<and> pf_le (sp_value (pts ! i)) (dict_get (g_state self') (label_key ((lbls # rest) ! i)) (Fin 0)))"
      if "res = Inr pts" for pts
    proof -
      from that res obtain points where p3: "res3 = Inr points" and pts: "pts = ?point # points"
        by (auto split: sum.splits)
      from IH p3 have len: "length points = length rest"
        and each: "\<forall>i < length rest.
                 sp_labels (points ! i) = rest ! i
               \<and> pf_le (dict_get (g_state ?self2) (label_key (rest ! i)) (Fin 0)) (sp_value (points ! i))
               \<and> pf_le (sp_value (points ! i)) (dict_get (g_state self3) (label_key (rest ! i)) (Fin 0))"
        by blast+
      have "sp_labels (pts ! i) = (lbls # rest) ! i
               \<and> pf_le (dict_get (g_state self) (label_key ((lbls # rest) ! i)) (Fin 0)) (sp_value (pts ! i))
               \<and> pf_le (sp_value (pts ! i)) (dict_get (g_state self') (label_key ((lbls # rest) ! i)) (Fin 0))"
        if "i < length (lbls # rest)" for i
      proof (cases i)
        case 0
        have "pf_le (dict_get (g_state self) ?key (Fin 0)) ?new"
          using c r f1(1) by simp
        moreover have "pf_le ?new (dict_get (g_state self') ?key (Fin 0))"
          using IH self' new2 by metis
        ultimately show ?thesis using 0 pts by simp
      next
        case (Suc n)
        then have n: "n < length rest" using that by simp
        have "pf_le (dict_get (g_state self) (label_key (rest ! n)) (Fin 0)) (sp_value (points ! n))"
          using step12 each n pf_le_trans by blast
        then show ?thesis using Suc pts each n self' by simp
      qed
      then show ?thesis using pts len by simp
    qed
    show ?thesis
      using mono pts IH f1 self' by simp
  qed
qed


lemma counter_tick_props:
  assumes "tick np self t_s = (res, self')" and "g_class self = CounterGenerator"
    and "\<forall>k. pf_le (dict_get (g_state self) k (Fin 0)) (dict_get (g_state self) k (Fin 0))"
  shows "pf_le (dict_get (g_state self) k (Fin 0)) (dict_get (g_state self') k (Fin 0))"
    and "g_class self' = CounterGenerator"
    and "label_combinations self' = label_combinations self"
    and "res = Inr pts \<Longrightarrow> length pts = length (label_combinations self)"
    and "res = Inr pts \<Longrightarrow> i < length (label_combinations self) \<Longrightarrow>
           sp_labels (pts ! i) = label_combinations self ! i"
    and "res = Inr pts \<Longrightarrow> i < length (label_combinations self) \<Longrightarrow>
           pf_le (dict_get (g_state self) (label_key (label_combinations self ! i)) (Fin 0))
                 (sp_value (pts ! i))"
    and "res = Inr pts \<Longrightarrow> i < length (label_combinations self) \<Longrightarrow>
           pf_le (sp_value (pts ! i))
                 (dict_get (g_state self') (label_key (label_combinations self ! i)) (Fin 0))"
proof -
  from assms(1,2) have "counter_loop np t_s (label_combinations self) self = (res, self')"
    by (simp add: tick_def counter_tick_def)
  note L = counter_loop_props[OF this assms(3)]
  from L show "pf_le (dict_get (g_state self) k (Fin 0)) (dict_get (g_state self') k (Fin 0))"
    by (elim conjE) (erule allE)
  from L assms(2) show "g_class self' = CounterGenerator" by simp
  from L show "label_combinations self' = label_combinations self" by simp
  from L have A: "\<forall>pts. res = Inr pts \<longrightarrow>
             length pts = length (label_combinations self)
           \<and> (\<forall>i < length (label_combinations self).
                 sp_labels (pts ! i) = label_combinations self ! i
               \<and> pf_le (dict_get (g_state self) (label_key (label_combinations self ! i)) (Fin 0))
                       (sp_value (pts ! i))
               \<and> pf_le (sp_value (pts ! i))
                       (dict_get (g_state self') (label_key (label_combinations self ! i)) (Fin 0)))"
    by (elim conjE)
  {
    assume r: "res = Inr pts"
    from A r have B: "length pts = length (label_combinations self)
           \<and> (\<forall>i < length (label_combinations self).
                 sp_labels (pts ! i) = label_combinations self ! i
               \<and> pf_le (dict_get (g_state self) (label_key (label_combinations self ! i)) (Fin 0))
                       (sp_value (pts ! i))
               \<and> pf_le (sp_value (pts ! i))
                       (dict_get (g_state self') (label_key (label_combinations self ! i)) (Fin 0)))"
      by (elim allE impE) simp_all
    from B show "length pts = length (label_combinations self)" by (elim conjE)
    assume i: "i < length (label_combinations self)"
    from B i have C: "sp_labels (pts ! i) = label_combinations self ! i
               \<and> pf_le (dict_get (g_state self) (label_key (label_combinations self ! i)) (Fin 0))
                       (sp_value (pts ! i))
               \<and> pf_le (sp_value (pts ! i))
                       (dict_get (g_state self') (label_key (label_combinations self ! i)) (Fin 0))"
      by (elim conjE allE impE) simp_all
    from C show "sp_labels (pts ! i) = label_combinations self ! i" by (elim conjE)
    from C show "pf_le (dict_get (g_state self) (label_key (label_combinations self ! i)) (Fin 0))
                 (sp_value (pts ! i))" by (elim conjE)
    from C show "pf_le (sp_value (pts ! i))
                 (dict_get (g_state self') (label_key (label_combinations self ! i)) (Fin 0))"
      by (elim conjE)
  }
qed

lemma pf_le_refl_of: "pf_le a b \<Longrightarrow> pf_le b b"
  by (cases a; cases b) auto

lemma counter_run_lower:
  assumes "run_ticks np self ts = (outs, self')" and "g_class self = CounterGenerator"
    and "\<forall>k. pf_le (dict_get (g_state self) k (Fin 0)) (dict_get (g_state self) k (Fin 0))"
    and "n < length ts" and "outs ! n = Inr pts" and "i < length (label_combinations self)"
  shows "length pts = length (label_combinations self)
       \<and> sp_labels (pts ! i) = label_combinations self ! i
       \<and> pf_le (dict_get (g_state self) (label_key (label_combinations self ! i)) (Fin 0))
               (sp_value (pts ! i))"
  using assms
proof (induction ts arbitrary: self outs n self')
  case Nil
  then show ?case by simp
next
  case (Cons t_s ts)
  obtain out self1 where t1: "tick np self t_s = (out, self1)" by (cases "tick np self t_s")
  obtain outs1 self2 where r1: "run_ticks np self1 ts = (outs1, self2)"
    by (cases "run_ticks np self1 ts")
  from Cons.prems(1) t1 r1 have outs: "outs = out # outs1" by simp
  note P = counter_tick_props[OF t1 Cons.prems(2,3)]
  show ?case
  proof (cases n)
    case 0
    then have o: "out = Inr pts" using Cons.prems(5) outs by simp
    show ?thesis using P(4)[OF o] P(5)[OF o Cons.prems(6)] P(6)[OF o Cons.prems(6)] by simp
  next
    case (Suc m)
    have fin1: "\<forall>k. pf_le (dict_get (g_state self1) k (Fin 0)) (dict_get (g_state self1) k (Fin 0))"
    proof
      fix k show "pf_le (dict_get (g_state self1) k (Fin 0)) (dict_get (g_state self1) k (Fin 0))"
        using P(1)[of k] by (rule pf_le_refl_of)
    qed
    have c1: "g_class self1 = CounterGenerator"
      and l1: "label_combinations self1 = label_combinations self" using P(2,3) by simp_all
    have m: "m < length ts" and om: "outs1 ! m = Inr pts"
      using Suc Cons.prems(4,5) outs by simp_all
    have i1: "i < length (label_combinations self1)" using l1 Cons.prems(6) by simp
    note IH = Cons.IH[OF r1 c1 fin1 m om i1]
    have low: "pf_le (dict_get (g_state self) (label_key (label_combinations self ! i)) (Fin 0))
            (dict_get (g_state self1) (label_key (label_combinations self ! i)) (Fin 0))"
      by (rule P(1))
    from IH have "pf_le (dict_get (g_state self1) (label_key (label_combinations self ! i)) (Fin 0))
            (sp_value (pts ! i))" unfolding l1 by (elim conjE)
    with low have "pf_le (dict_get (g_state self) (label_key (label_combinations self ! i)) (Fin 0))
            (sp_value (pts ! i))" by (rule pf_le_trans)
    then show ?thesis using IH unfolding l1 by simp
  qed
qed

lemma counter_run_monotone:
  assumes "run_ticks np self ts = (outs, self')" and "g_class self = CounterGenerator"
    and "\<forall>k. pf_le (dict_get (g_state self) k (Fin 0)) (dict_get (g_state self) k (Fin 0))"
    and "j < n" and "n < length ts" and "outs ! j = Inr ptsj" and "outs ! n = Inr ptsn"
    and "i < length (label_combinations self)"
  shows "pf_le (sp_value (ptsj ! i)) (sp_value (ptsn ! i))"
  using assms
proof (induction ts arbitrary: self outs j n self')
  case Nil
  then show ?case by simp
next
  case (Cons t_s ts)
  obtain out self1 where t1: "tick np self t_s = (out, self1)" by (cases "tick np self t_s")
  obtain outs1 self2 where r1: "run_ticks np self1 ts = (outs1, self2)"
    by (cases "run_ticks np self1 ts")
  from Cons.prems(1) t1 r1 have outs: "outs = out # outs1" by simp
  note P = counter_tick_props[OF t1 Cons.prems(2,3)]
  have fin1: "\<forall>k. pf_le (dict_get (g_state self1) k (Fin 0)) (dict_get (g_state self1) k (Fin 0))"
  proof
    fix k show "pf_le (dict_get (g_state self1) k (Fin 0)) (dict_get (g_state self1) k (Fin 0))"
      using P(1)[of k] by (rule pf_le_refl_of)
  qed
  have c1: "g_class self1 = CounterGenerator"
    and l1: "label_combinations self1 = label_combinations self" using P(2,3) by simp_all
  have i1: "i < length (label_combinations self1)" using l1 Cons.prems(8) by simp
  obtain m where n: "n = Suc m" using Cons.prems(4) by (cases n) auto
  have m: "m < length ts" and om: "outs1 ! m = Inr ptsn"
    using n Cons.prems(5,7) outs by simp_all
  show ?case
  proof (cases j)
    case 0
    then have o: "out = Inr ptsj" using Cons.prems(6) outs by simp
    have up: "pf_le (sp_value (ptsj ! i))
        (dict_get (g_state self1) (label_key (label_combinations self ! i)) (Fin 0))"
      by (rule P(7)[OF o Cons.prems(8)])
    from counter_run_lower[OF r1 c1 fin1 m om i1]
    have "pf_le (dict_get (g_state self1) (label_key (label_combinations self ! i)) (Fin 0))
            (sp_value (ptsn ! i))" unfolding l1 by (elim conjE)
    with up show ?thesis by (rule pf_le_trans)
  next
    case (Suc j')
    then have "j' < m" and "outs1 ! j' = Inr ptsj"
      using n Cons.prems(4,6) outs by simp_all
    from Cons.IH[OF r1 c1 fin1 this(1) m this(2) om i1] show ?thesis .
  qed
qed

lemma create_generator_counter:
  assumes "create_generator np config combos seed = Inr gen" and "mc_type config = ''counter''"
  shows "g_class gen = CounterGenerator"
  using assms by (auto simp: create_generator_def MetricGenerator_init_def Let_def)


lemma scripted_simps [simp]:
  "default_rng (scripted_numpy script) = script"
  "rng_poisson (scripted_numpy script) g rate = next_draw g"
  "rng_normal (scripted_numpy script) g loc scale = next_draw g"
  "rng_binomial (scripted_numpy script) g n p = next_draw g"
  "rng_lognormal (scripted_numpy script) g mean sigma = next_draw g"
  "rng_exponential (scripted_numpy script) g scale = next_draw g"
  by (simp_all add: scripted_numpy_def)

lemma example_config_simps [simp]:
  "mc_name (example_config nm ty alg) = nm"
  "mc_type (example_config nm ty alg) = ty"
  "mc_algorithm (example_config nm ty alg) = alg"
  "mc_seed (example_config nm ty alg) = None"
  "mc_base_rate (example_config nm ty alg) = None"
  "mc_diurnal_amp (example_config nm ty alg) = None"
  "mc_mu (example_config nm ty alg) = None"
  "mc_sigma (example_config nm ty alg) = None"
  "mc_lam (example_config nm ty alg) = None"
  "mc_p (example_config nm ty alg) = None"
  "mc_clamp (example_config nm ty alg) = None"
  "mc_components (example_config nm ty alg) = None"
  "mc_allow_nan (example_config nm ty alg) = False"
  by (simp_all add: example_config_def)

lemma example_counter_run:
  "run_ticks (scripted_numpy (\<lambda>seed. [Fin 3, Fin (- 2), NaN, Fin 4]))
     (MetricGenerator_init (scripted_numpy (\<lambda>seed. [Fin 3, Fin (- 2), NaN, Fin 4]))
        CounterGenerator ''requests_total'' ''counter'' example_combos
        (example_config ''requests_total'' ''counter'' ''poisson'') 42) [0, 1]
   = ([Inr [\<lparr>sp_name = ''requests_total'', sp_labels = [(''region'', ''us'')], sp_value = Fin 3\<rparr>,
            \<lparr>sp_name = ''requests_total'', sp_labels = [(''region'', ''eu'')], sp_value = Fin 0\<rparr>],
       Inr [\<lparr>sp_name = ''requests_total'', sp_labels = [(''region'', ''us'')], sp_value = Fin 3\<rparr>,
            \<lparr>sp_name = ''requests_total'', sp_labels = [(''region'', ''eu'')], sp_value = Fin 4\<rparr>]],
      (MetricGenerator_init (scripted_numpy (\<lambda>seed. [Fin 3, Fin (- 2), NaN, Fin 4]))
        CounterGenerator ''requests_total'' ''counter'' example_combos
        (example_config ''requests_total'' ''counter'' ''poisson'') 42)
        \<lparr>rng := [], g_state := [label_key [(''region'', ''us'')] \<mapsto> Fin 3,
                                  label_key [(''region'', ''eu'')] \<mapsto> Fin 4]\<rparr>)"
  by (simp add: tick_def counter_tick_def MetricGenerator_init_def example_combos_def
      counter_generate_poisson_def draw_def next_draw_def apply_diurnal_modulation_def
      max0_def dict_get_def Let_def label_key_def fun_upd_twist)

section \<open>Counter delta conservation\<close>

text \<open>
  C1, as the claim states it, fails: the general identity does not hold on binary64
  floats. A counter series reports 1 and then \<open>2 ^ 53 + 2\<close>, both binary64 numbers, in
  non-decreasing order and with no reset. The exporter adds 1 and then the rounded
  difference \<open>2 ^ 53\<close>, not \<open>2 ^ 53 + 1\<close>: the deltas sum to \<open>2 ^ 53 + 1\<close> exactly, and
  to \<open>2 ^ 53\<close> when they are added in binary64, and neither is the final cumulative
  value \<open>2 ^ 53 + 2\<close>.
\<close>

theorem counter_delta_rounding_counterexample:
  "fst (otel_export_points64 (example_otel ''requests_total'' ''counter'')
          (series_points ''otel_requests_total'' example_labels [1, 9007199254740994])
          [''requests_total'' \<mapsto> ''counter''])
     = [Add (OtelCounter ''otel_requests_total'') (Fin 1) example_labels,
        Add (OtelCounter ''otel_requests_total'') (Fin 9007199254740992) example_labels]
   \<and> pf_sum (map call_amount
        (fst (otel_export_points64 (example_otel ''requests_total'' ''counter'')
          (series_points ''otel_requests_total'' example_labels [1, 9007199254740994])
          [''requests_total'' \<mapsto> ''counter''])))
     = Fin 9007199254740993
   \<and> Fin 9007199254740993 \<noteq> Fin 9007199254740994
   \<and> round64 (1 + 9007199254740992) = 9007199254740992
   \<and> round64 1 = 1 \<and> round64 9007199254740994 = 9007199254740994
   \<and> sorted [1, 9007199254740994 :: real]"
proof -
  have "fst (otel_export_points64 (example_otel ''requests_total'' ''counter'')
          (series_points ''otel_requests_total'' example_labels [1, 9007199254740994])
          [''requests_total'' \<mapsto> ''counter''])
     = [Add (OtelCounter ''otel_requests_total'') (Fin 1) example_labels,
        Add (OtelCounter ''otel_requests_total'') (Fin 9007199254740992) example_labels]"
    by (simp add: series_points_def otel_export_point64_def otel_export_point_with_def
        example_otel_simps strip_prefix_def Let_def dict_get_def)
  then show ?thesis by (simp add: pf_sum_def)
qed

text \<open>
  C1, amended. Take an exporter that tracks nothing for a counter series. Fed the
  cumulative values 5, 12, 18, 25, 25 of the series, the push-model exporter adds exactly
  5, 7, 6 and 7, which sum to 25, and the last value the pull-model exporter writes is
  25, provided the client library accepts the series' label names for the metric.

  More generally, feed the push-model exporter any list of points of the metric, of any
  number of series in any order, in which no other series has the series' key. If the
  values \<open>vs\<close> of the series are non-decreasing from 0 on (no reset is detected) and every
  step is a difference that binary64 holds, then the exact sum of the deltas added for the
  series is the last of \<open>vs\<close>. Every step is such a difference when the values are integers
  up to \<open>2 ^ 53\<close>, as the cumulative values of a Poisson counter are. The last write
  of the pull-model exporter is the last value of the series.
\<close>

theorem counter_delta_conservation:
  assumes "instruments self base = Some instr" and "has_add instr"
    and "metric_types base = Some ''counter''"
    and "counter_state self (series_key base lbls) = None"
    and "metrics prom base = Some pm" and "pm_kind pm = PromCounter"
    and "labels_accepted pm lbls"
  shows "fst (otel_export_points64 self
               (series_points (otel_prefix self @ base) lbls [5, 12, 18, 25, 25]) metric_types)
           = [Add instr (Fin 5) lbls, Add instr (Fin 7) lbls, Add instr (Fin 6) lbls,
              Add instr (Fin 7) lbls]
       \<and> pf_sum (map call_amount (fst (otel_export_points64 self
               (series_points (otel_prefix self @ base) lbls [5, 12, 18, 25, 25]) metric_types)))
           = Fin 25
       \<and> last (prom_export_points prom
               (series_points (prom_prefix prom @ base) lbls [5, 12, 18, 25, 25]) metric_types)
           = ValueSet pm lbls (Fin 25)
       \<and> (\<forall>pts vs calls self'.
              (\<forall>pt \<in> set pts. sp_name pt = otel_prefix self @ base)
            \<and> (\<forall>pt \<in> set pts. series_key base (sp_labels pt) = series_key base lbls
                                \<longrightarrow> sp_labels pt = lbls)
            \<and> map sp_value (filter (\<lambda>pt. sp_labels pt = lbls) pts) = map Fin vs
            \<and> vs \<noteq> [] \<and> sorted vs \<and> 0 \<le> hd vs \<and> exact_steps 0 vs
            \<and> otel_export_points64 self pts metric_types = (calls, self')
            \<longrightarrow> pf_sum (map call_amount (filter (\<lambda>c. call_labels c = lbls) calls))
                  = Fin (last vs))
       \<and> (\<forall>vs. sorted vs \<and> (\<forall>v \<in> set vs. v \<in> \<int> \<and> 0 \<le> v \<and> v \<le> 2 ^ 53)
                \<longrightarrow> exact_steps 0 vs)
       \<and> (\<forall>vs. vs \<noteq> [] \<longrightarrow>
             last (prom_export_points prom
                     (series_points (prom_prefix prom @ base) lbls vs) metric_types)
               = ValueSet pm lbls (Fin (last vs)))"
proof -
  let ?key = "series_key base lbls"
  have t0: "dict_get (counter_state self) ?key (Fin 0) = Fin 0"
    using assms(4) by (simp add: dict_get_def)
  have ex: "fst (otel_export_points64 self
               (series_points (otel_prefix self @ base) lbls [5, 12, 18, 25, 25]) metric_types)
           = [Add instr (Fin 5) lbls, Add instr (Fin 7) lbls, Add instr (Fin 6) lbls,
              Add instr (Fin 7) lbls]"
    using assms(1-4) by (rule otel_counter_example64)
  have sm: "pf_sum (map call_amount (fst (otel_export_points64 self
               (series_points (otel_prefix self @ base) lbls [5, 12, 18, 25, 25]) metric_types)))
           = Fin 25"
    unfolding ex by (simp add: pf_sum_def)
  have pull: "prom_export_points prom (series_points (prom_prefix prom @ base) lbls vs) metric_types
              = map (\<lambda>v. ValueSet pm lbls (Fin v)) vs" for vs
    using assms(5,6,7,3) by (rule prom_counter_run)
  have pl: "last (prom_export_points prom
               (series_points (prom_prefix prom @ base) lbls [5, 12, 18, 25, 25]) metric_types)
           = ValueSet pm lbls (Fin 25)"
    unfolding pull by simp
  have gen: "pf_sum (map call_amount (filter (\<lambda>c. call_labels c = lbls) calls)) = Fin (last vs)"
    if nm: "\<forall>pt \<in> set pts. sp_name pt = otel_prefix self @ base"
      and nc: "\<forall>pt \<in> set pts. series_key base (sp_labels pt) = series_key base lbls
                                \<longrightarrow> sp_labels pt = lbls"
      and vals: "map sp_value (filter (\<lambda>pt. sp_labels pt = lbls) pts) = map Fin vs"
      and ne: "vs \<noteq> []" and so: "sorted vs" and h0: "0 \<le> hd vs" and es: "exact_steps 0 vs"
      and run: "otel_export_points64 self pts metric_types = (calls, self')"
    for pts vs calls self'
  proof -
    have s0: "sorted (0 # vs)" using ne so h0 by (cases vs) auto
    from otel_counter_feed64[OF assms(1-3) nm nc vals t0 s0 es run, of 0] ne
    show ?thesis by (simp add: pf_sum_def)
  qed
  have suff: "exact_steps 0 vs"
    if "sorted vs" and "\<forall>v \<in> set vs. v \<in> \<int> \<and> 0 \<le> v \<and> v \<le> 2 ^ 53" for vs :: "real list"
  proof -
    have "sorted (0 # vs)" using that by simp
    moreover have "\<forall>v \<in> set vs. v \<in> \<int> \<and> v \<le> 2 ^ 53" using that(2) by blast
    ultimately show ?thesis using exact_steps_int[of 0 vs] by simp
  qed
  have plg: "last (prom_export_points prom
                     (series_points (prom_prefix prom @ base) lbls vs) metric_types)
               = ValueSet pm lbls (Fin (last vs))" if "vs \<noteq> []" for vs
    unfolding pull using that by (simp add: last_map)
  show ?thesis
    apply (intro conjI allI impI)
         apply (rule ex)
        apply (rule sm)
       apply (rule pl)
      apply (elim conjE)
      apply (rule gen; assumption)
     apply (elim conjE)
     apply (rule suff; assumption)
    apply (rule plg; assumption)
    done
qed

theorem counter_delta_conservation_witness:
  "fst (otel_export_points64 (example_otel ''requests_total'' ''counter'')
          (series_points ''otel_requests_total'' example_labels [5, 12, 18, 25, 25])
          [''requests_total'' \<mapsto> ''counter''])
     = [Add (OtelCounter ''otel_requests_total'') (Fin 5) example_labels,
        Add (OtelCounter ''otel_requests_total'') (Fin 7) example_labels,
        Add (OtelCounter ''otel_requests_total'') (Fin 6) example_labels,
        Add (OtelCounter ''otel_requests_total'') (Fin 7) example_labels]
   \<and> labels_accepted
        \<lparr>pm_kind = PromCounter, pm_name = ''prom_requests_total'', pm_label_names = [''region'', ''az'']\<rparr>
        example_labels
   \<and> last (prom_export_points (example_prom ''requests_total'' ''counter'')
             (series_points ''prom_requests_total'' example_labels [5, 12, 18, 25, 25])
             [''requests_total'' \<mapsto> ''counter''])
     = ValueSet \<lparr>pm_kind = PromCounter, pm_name = ''prom_requests_total'',
                 pm_label_names = [''region'', ''az'']\<rparr> example_labels (Fin 25)
   \<and> series_key ''requests_total'' other_labels \<noteq> series_key ''requests_total'' example_labels
   \<and> exact_steps 0 [1, 3, 8]
   \<and> pf_sum (map call_amount (filter (\<lambda>c. call_labels c = example_labels)
        (fst (otel_export_points64 (example_otel ''requests_total'' ''counter'')
           [\<lparr>sp_name = ''otel_requests_total'', sp_labels = example_labels, sp_value = Fin 1\<rparr>,
            \<lparr>sp_name = ''otel_requests_total'', sp_labels = other_labels, sp_value = Fin 10\<rparr>,
            \<lparr>sp_name = ''otel_requests_total'', sp_labels = example_labels, sp_value = Fin 3\<rparr>,
            \<lparr>sp_name = ''otel_requests_total'', sp_labels = other_labels, sp_value = Fin 4\<rparr>,
            \<lparr>sp_name = ''otel_requests_total'', sp_labels = example_labels, sp_value = Fin 8\<rparr>]
           [''requests_total'' \<mapsto> ''counter'']))))
     = Fin 8"
proof -
  let ?self = "example_otel ''requests_total'' ''counter''"
  let ?prom = "example_prom ''requests_total'' ''counter''"
  let ?mt = "[''requests_total'' \<mapsto> ''counter'']"
  let ?instr = "OtelCounter ''otel_requests_total''"
  let ?pm = "\<lparr>pm_kind = PromCounter, pm_name = ''prom_requests_total'',
               pm_label_names = [''region'', ''az'']\<rparr>"
  let ?pts = "[\<lparr>sp_name = ''otel_requests_total'', sp_labels = example_labels, sp_value = Fin 1\<rparr>,
            \<lparr>sp_name = ''otel_requests_total'', sp_labels = other_labels, sp_value = Fin 10\<rparr>,
            \<lparr>sp_name = ''otel_requests_total'', sp_labels = example_labels, sp_value = Fin 3\<rparr>,
            \<lparr>sp_name = ''otel_requests_total'', sp_labels = other_labels, sp_value = Fin 4\<rparr>,
            \<lparr>sp_name = ''otel_requests_total'', sp_labels = example_labels, sp_value = Fin 8\<rparr>]"
  have h1: "instruments ?self ''requests_total'' = Some ?instr"
    by (simp add: example_otel_simps)
  have h2: "has_add ?instr" by simp
  have h3: "?mt ''requests_total'' = Some ''counter''" by simp
  have h4: "counter_state ?self (series_key ''requests_total'' example_labels) = None"
    by (simp add: example_otel_simps)
  have h5: "metrics ?prom ''requests_total'' = Some ?pm"
    by (simp add: example_prom_simps)
  have h6: "pm_kind ?pm = PromCounter" by simp
  have h7: "labels_accepted ?pm example_labels"
    by (simp add: labels_accepted_def example_labels_def)
  have pfx: "otel_prefix ?self = ''otel_''" "prom_prefix ?prom = ''prom_''"
    by (simp_all add: example_otel_simps example_prom_simps)
  have kne: "series_key ''requests_total'' other_labels \<noteq> series_key ''requests_total'' example_labels"
    by (simp add: series_key_def label_key_def other_labels_def example_labels_def)
  have lne: "other_labels \<noteq> example_labels"
    by (simp add: other_labels_def example_labels_def)
  have es: "exact_steps 0 [1, 3, 8]" by simp
  note T = counter_delta_conservation[of ?self "''requests_total''" ?instr ?mt example_labels
      ?prom ?pm, OF h1 h2 h3 h4 h5 h6 h7]
  have nm: "\<forall>pt \<in> set ?pts. sp_name pt = otel_prefix ?self @ ''requests_total''"
    by (simp add: pfx)
  have nc: "\<forall>pt \<in> set ?pts. series_key ''requests_total'' (sp_labels pt)
               = series_key ''requests_total'' example_labels \<longrightarrow> sp_labels pt = example_labels"
    using kne by simp
  have vals: "map sp_value (filter (\<lambda>pt. sp_labels pt = example_labels) ?pts) = map Fin [1, 3, 8]"
    using lne by simp
  obtain calls self' where run: "otel_export_points64 ?self ?pts ?mt = (calls, self')"
    by (cases "otel_export_points64 ?self ?pts ?mt")
  from T have "\<forall>pts vs calls self'.
              (\<forall>pt \<in> set pts. sp_name pt = otel_prefix ?self @ ''requests_total'')
            \<and> (\<forall>pt \<in> set pts. series_key ''requests_total'' (sp_labels pt)
                    = series_key ''requests_total'' example_labels
                                \<longrightarrow> sp_labels pt = example_labels)
            \<and> map sp_value (filter (\<lambda>pt. sp_labels pt = example_labels) pts) = map Fin vs
            \<and> vs \<noteq> [] \<and> sorted vs \<and> 0 \<le> hd vs \<and> exact_steps 0 vs
            \<and> otel_export_points64 ?self pts ?mt = (calls, self')
            \<longrightarrow> pf_sum (map call_amount (filter (\<lambda>c. call_labels c = example_labels) calls))
                  = Fin (last vs)"
    by (elim conjE)
  then have "(\<forall>pt \<in> set ?pts. sp_name pt = otel_prefix ?self @ ''requests_total'')
            \<and> (\<forall>pt \<in> set ?pts. series_key ''requests_total'' (sp_labels pt)
                    = series_key ''requests_total'' example_labels
                                \<longrightarrow> sp_labels pt = example_labels)
            \<and> map sp_value (filter (\<lambda>pt. sp_labels pt = example_labels) ?pts) = map Fin [1, 3, 8]
            \<and> [1, 3, 8 :: real] \<noteq> [] \<and> sorted [1, 3, 8 :: real] \<and> 0 \<le> hd [1, 3, 8 :: real]
            \<and> exact_steps 0 [1, 3, 8]
            \<and> otel_export_points64 ?self ?pts ?mt = (calls, self')
            \<longrightarrow> pf_sum (map call_amount (filter (\<lambda>c. call_labels c = example_labels) calls))
                  = Fin (last [1, 3, 8])"
    by blast
  with nm nc vals es run
  have g: "pf_sum (map call_amount (filter (\<lambda>c. call_labels c = example_labels) calls)) = Fin 8"
    by simp
  have c1: "fst (otel_export_points64 ?self
          (series_points ''otel_requests_total'' example_labels [5, 12, 18, 25, 25]) ?mt)
     = [Add ?instr (Fin 5) example_labels, Add ?instr (Fin 7) example_labels,
        Add ?instr (Fin 6) example_labels, Add ?instr (Fin 7) example_labels]"
    using T pfx by simp
  have c3: "last (prom_export_points ?prom
             (series_points ''prom_requests_total'' example_labels [5, 12, 18, 25, 25]) ?mt)
     = ValueSet ?pm example_labels (Fin 25)"
    using T pfx by simp
  show ?thesis
    using c1 h7 c3 kne es g run by simp
qed


section \<open>Gauge delta conservation\<close>

text \<open>
  C2 fails on the code at two inputs. Two gauge series whose label values contain the
  separators \<open>,\<close> and \<open>=\<close> share one series key: when the first has reported 50, the
  first observation of the second is compared with 50 and not with 0, and its first
  value 50 is not sent at all. And for a metric with no label names the pull-model
  exporter writes nothing, whatever the values: \<open>metric.labels()\<close> raises for a metric
  constructed without label names, and \<open>export_point\<close> catches the exception.
\<close>

theorem gauge_first_observation_collision:
  "fst (otel_export_points64 (example_otel ''cpu_usage'' ''gauge'')
          [\<lparr>sp_name = ''otel_cpu_usage'', sp_labels = [(''a'', ''1,b=2''), (''b'', ''3'')],
            sp_value = Fin 50\<rparr>,
           \<lparr>sp_name = ''otel_cpu_usage'', sp_labels = [(''a'', ''1''), (''b'', ''2,b=3'')],
            sp_value = Fin 50\<rparr>]
          [''cpu_usage'' \<mapsto> ''gauge''])
     = [Add (OtelUpDownCounter ''otel_cpu_usage'') (Fin 50) [(''a'', ''1,b=2''), (''b'', ''3'')]]
   \<and> fst (otel_export_point64 (example_otel ''cpu_usage'' ''gauge'')
          \<lparr>sp_name = ''otel_cpu_usage'', sp_labels = [(''a'', ''1''), (''b'', ''2,b=3'')],
            sp_value = Fin 50\<rparr> ''gauge'')
     = [Add (OtelUpDownCounter ''otel_cpu_usage'') (Fin 50) [(''a'', ''1''), (''b'', ''2,b=3'')]]
   \<and> prom_export_points
        (prom_register_metric (PrometheusExporter_init ''prom_'' [''cpu_usage''])
           ''cpu_usage'' ''gauge'' [])
        (series_points ''prom_cpu_usage'' [] [50, 55, 53, 60, 60])
        [''cpu_usage'' \<mapsto> ''gauge'']
     = []"
  by (simp add: otel_export_point64_def otel_export_point_with_def example_otel_simps
      strip_prefix_def series_key_def label_key_def Let_def dict_get_def
      series_points_def prom_export_point_def prom_register_metric_def
      PrometheusExporter_init_def labels_accepted_def)

section \<open>The counter reconciliation rule\<close>





section \<open>A spike multiplier and counter conservation\<close>



section \<open>The series cap\<close>

text \<open>
  C6, as the claim states it, fails twice. A cap of 0 is read as no cap: a product of two
  combinations exceeds it and is kept whole, where the claim asks for none. And the
  hash selection depends on the order of its input where two combinations have the same
  hash, as two combinations with the same label-pair text have under every digest:
  the stable sort keeps them in input order.
\<close>

theorem series_cap_counterexample:
  "(\<forall>py md5_int.
      generate_label_space py md5_int
        \<lparr>cp_labels = [(''region'', \<lparr>lvs_values = Some [''us'', ''eu''], lvs_range = None,
                                     lvs_fmt = None\<rparr>)],
         series_cap = Some 0, sampling_strategy = ''first_n''\<rparr> None
      = Inr [[(''region'', ''us'')], [(''region'', ''eu'')]])
   \<and> (\<forall>md5_int.
        apply_series_cap md5_int
          [[(''a'', ''1,b=2''), (''b'', ''3'')], [(''a'', ''1''), (''b'', ''2,b=3'')]] 1 ''hash''
        = [[(''a'', ''1,b=2''), (''b'', ''3'')]]
      \<and> apply_series_cap md5_int
          [[(''a'', ''1''), (''b'', ''2,b=3'')], [(''a'', ''1,b=2''), (''b'', ''3'')]] 1 ''hash''
        = [[(''a'', ''1''), (''b'', ''2,b=3'')]])"
  by (simp add: generate_label_space_def generate_label_values_def Let_def
      apply_series_cap_def slice_to_def label_hash_def label_key_def)

text \<open>
  C6, amended. Let \<open>product\<close> be the label space built without a cap. With a cap
  \<open>cap > 0\<close> that the product exceeds, \<open>first_n\<close> yields the first \<open>cap\<close> combinations
  of the product in product order, and \<open>hash\<close> yields the first \<open>cap\<close> combinations,
  exactly \<open>cap\<close> of them, of the product sorted ascending (stably) by the digest of the
  sorted label-pair text. With no cap, a cap of 0, or a product that does not exceed
  the cap, every combination is kept. The hash selection is the same for every order
  of an input list whose combinations have pairwise distinct hashes.
\<close>

theorem series_cap_selection:
  assumes "generate_label_space py md5_int (profile\<lparr>series_cap := None\<rparr>) additional = Inr product"
  shows "(series_cap profile = Some cap \<and> 0 < cap \<and> int (length product) > cap
            \<and> sampling_strategy profile = ''first_n'' \<longrightarrow>
            generate_label_space py md5_int profile additional = Inr (take (nat cap) product))
       \<and> (series_cap profile = Some cap \<and> 0 < cap \<and> int (length product) > cap
            \<and> sampling_strategy profile = ''hash'' \<longrightarrow>
            generate_label_space py md5_int profile additional
              = Inr (take (nat cap) (sort_key (label_hash md5_int) product))
          \<and> length (take (nat cap) (sort_key (label_hash md5_int) product)) = nat cap
          \<and> sorted (map (label_hash md5_int) (sort_key (label_hash md5_int) product))
          \<and> mset (sort_key (label_hash md5_int) product) = mset product)
       \<and> (series_cap profile = None \<or> series_cap profile = Some 0
            \<or> (series_cap profile = Some cap \<and> int (length product) \<le> cap) \<longrightarrow>
            generate_label_space py md5_int profile additional = Inr product)
       \<and> (mset ys = mset xs \<and> inj_on (label_hash md5_int) (set xs) \<longrightarrow>
            apply_series_cap md5_int ys cap ''hash'' = apply_series_cap md5_int xs cap ''hash'')"
proof -
  note sp = generate_label_space_cap[OF assms]
  note un = generate_label_space_uncapped[OF assms]
  have a: "generate_label_space py md5_int profile additional = Inr (take (nat cap) product)"
    if "series_cap profile = Some cap" "0 < cap" "int (length product) > cap"
       "sampling_strategy profile = ''first_n''"
    using sp[of cap] that by (simp add: apply_series_cap_def slice_to_pos)
  have b: "generate_label_space py md5_int profile additional
              = Inr (take (nat cap) (sort_key (label_hash md5_int) product))
          \<and> length (take (nat cap) (sort_key (label_hash md5_int) product)) = nat cap
          \<and> sorted (map (label_hash md5_int) (sort_key (label_hash md5_int) product))
          \<and> mset (sort_key (label_hash md5_int) product) = mset product"
    if "series_cap profile = Some cap" "0 < cap" "int (length product) > cap"
       "sampling_strategy profile = ''hash''"
    using sp[of cap] that by (simp add: apply_series_cap_def slice_to_pos Let_def)
  have c: "generate_label_space py md5_int profile additional = Inr product"
    if "series_cap profile = None \<or> series_cap profile = Some 0
            \<or> (series_cap profile = Some cap \<and> int (length product) \<le> cap)"
    using sp[of cap] sp[of 0] un that by auto
  have d: "apply_series_cap md5_int ys cap ''hash'' = apply_series_cap md5_int xs cap ''hash''"
    if "mset ys = mset xs" "inj_on (label_hash md5_int) (set xs)"
    using sort_key_order_independent[OF that] by (simp add: apply_series_cap_def)
  show ?thesis using a b c d by blast
qed


theorem series_cap_selection_witness:
  "generate_label_space rejecting_format length_digest
     ((example_profile (Some 2) ''hash'')\<lparr>series_cap := None\<rparr>) None
     = Inr [[(''region'', ''us-east'')], [(''region'', ''eu'')], [(''region'', ''apac'')]]
   \<and> series_cap (example_profile (Some 2) ''hash'') = Some 2 \<and> (0 :: int) < 2
   \<and> int (length [[(''region'', ''us-east'')], [(''region'', ''eu'')], [(''region'', ''apac'')]]) > 2
   \<and> sampling_strategy (example_profile (Some 2) ''hash'') = ''hash''
   \<and> generate_label_space rejecting_format length_digest (example_profile (Some 2) ''hash'') None
       = Inr [[(''region'', ''eu'')], [(''region'', ''apac'')]]
   \<and> mset [[(''region'', ''apac'')], [(''region'', ''us-east'')], [(''region'', ''eu'')]]
       = mset [[(''region'', ''us-east'')], [(''region'', ''eu'')], [(''region'', ''apac'')]]
   \<and> inj_on (label_hash length_digest)
        (set [[(''region'', ''us-east'')], [(''region'', ''eu'')], [(''region'', ''apac'')]])
   \<and> apply_series_cap length_digest
        [[(''region'', ''apac'')], [(''region'', ''us-east'')], [(''region'', ''eu'')]] 2 ''hash''
       = apply_series_cap length_digest
        [[(''region'', ''us-east'')], [(''region'', ''eu'')], [(''region'', ''apac'')]] 2 ''hash''"
proof -
  let ?product = "[[(''region'', ''us-east'')], [(''region'', ''eu'')], [(''region'', ''apac'')]]"
  let ?ys = "[[(''region'', ''apac'')], [(''region'', ''us-east'')], [(''region'', ''eu'')]]"
  have h1: "generate_label_space rejecting_format length_digest
     ((example_profile (Some 2) ''hash'')\<lparr>series_cap := None\<rparr>) None = Inr ?product"
    by (simp add: generate_label_space_def generate_label_values_def example_profile_def Let_def)
  have h2: "series_cap (example_profile (Some 2) ''hash'') = Some 2"
    and h3: "sampling_strategy (example_profile (Some 2) ''hash'') = ''hash''"
    by (simp_all add: example_profile_def)
  have h4: "mset ?ys = mset ?product" by simp
  have srt: "sort_key (label_hash length_digest) ?product
     = [[(''region'', ''eu'')], [(''region'', ''apac'')], [(''region'', ''us-east'')]]"
    by (simp add: label_hash_def length_digest_def label_key_def)
  note T = series_cap_selection[OF h1, of 2 ?ys ?product]
  show ?thesis
    using T h1 h2 h3 h4 inj_on_length_digest_example srt by simp
qed


section \<open>Series keys\<close>

text \<open>
  C7. The series key is not injective: two label mappings with the same label names and
  different values get the same label key, and with it the same series key, when a
  value contains the separators \<open>,\<close> and \<open>=\<close>.
\<close>

theorem series_key_collision:
  "series_key ''latency'' [(''a'', ''1,b=2''), (''b'', ''3'')]
     = series_key ''latency'' [(''a'', ''1''), (''b'', ''2,b=3'')]
   \<and> label_key [(''a'', ''1,b=2''), (''b'', ''3'')] = label_key [(''a'', ''1''), (''b'', ''2,b=3'')]
   \<and> series_key ''latency'' [(''a'', ''1,b=2''), (''b'', ''3'')] = ''latency:a=1,b=2,b=3''
   \<and> map_of [(''a'', ''1,b=2''), (''b'', ''3'')] ''a'' \<noteq> map_of [(''a'', ''1''), (''b'', ''2,b=3'')] ''a''
   \<and> map fst [(''a'', ''1,b=2''), (''b'', ''3'')] = map fst [(''a'', ''1''), (''b'', ''2,b=3'')]"
  by (simp add: series_key_def label_key_def)


section \<open>Malformed label ranges\<close>

text \<open>
  C9, as the claim states it, fails: a range whose end is below its start is not
  rejected. \<open>generate_label_values\<close> returns the empty list for it, and the label space
  of a profile that has it as its only label is the empty list, not an error.
\<close>

theorem malformed_range_counterexample:
  "generate_label_values rejecting_format
     \<lparr>lvs_values = None, lvs_range = Some [5, 1], lvs_fmt = None\<rparr> = Inr []
   \<and> generate_label_space rejecting_format length_digest
        \<lparr>cp_labels = [(''id'', \<lparr>lvs_values = None, lvs_range = Some [5, 1], lvs_fmt = None\<rparr>)],
         series_cap = None, sampling_strategy = ''first_n''\<rparr> None = Inr []"
  by (simp add: generate_label_space_def generate_label_values_def Let_def)

text \<open>
  C9, amended. A range specification with \<open>end < start\<close> raises nothing: it resolves to
  no value, a label space that has it as a dimension (among the labels of the profile
  or the additional labels of the metric) is empty, and a generator over an empty
  label space returns no point and no error on a tick. A template that the formatting
  operator selected for it (\<open>%\<close> when the template contains a \<open>%\<close>, \<open>str.format\<close>
  otherwise) rejects for a value of the range makes \<open>generate_label_values\<close> raise, with
  the operator's exception when the value is the first of the range, and makes
  \<open>generate_label_space\<close> raise for a label space that has the specification as a
  dimension.
\<close>

theorem malformed_range_not_rejected:
  assumes "lvs_values spec = None" and "lvs_range spec = Some [start, endv]"
    and "fmt = (case lvs_fmt spec of None \<Rightarrow> ''{}'' | Some f \<Rightarrow> if f = [] then ''{}'' else f)"
    and "all_label_specs = (case additional_labels of
                              None \<Rightarrow> cp_labels profile
                            | Some extra \<Rightarrow> dict_update (cp_labels profile) extra)"
  shows "(endv < start \<longrightarrow>
            generate_label_values py spec = Inr []
          \<and> ((nm, spec) \<in> set all_label_specs
               \<and> generate_label_space py md5_int profile additional_labels = Inr combos
               \<longrightarrow> combos = [])
          \<and> (create_generator np config [] global_seed = Inr gen \<longrightarrow>
               tick np gen t_s = (Inr [], gen)))
       \<and> (start \<le> endv
            \<and> (if CHR ''%'' \<in> set fmt then percent_format py fmt start
                else str_format py fmt start) = Inl e
            \<longrightarrow> generate_label_values py spec = Inl e)
       \<and> (i \<in> {start..endv}
            \<and> (if CHR ''%'' \<in> set fmt then percent_format py fmt i
                else str_format py fmt i) = Inl e
            \<longrightarrow> (\<exists>e'. generate_label_values py spec = Inl e')
              \<and> ((nm, spec) \<in> set all_label_specs
                   \<longrightarrow> (\<exists>e'. generate_label_space py md5_int profile additional_labels = Inl e')))"
proof -
  let ?op = "if CHR ''%'' \<in> set fmt then percent_format py fmt else str_format py fmt"
  have glv: "generate_label_values py spec = try_map ?op [start..endv]"
    using assms(1-3) by (simp add: generate_label_values_def Let_def)
  have a: "generate_label_values py spec = Inr []" if "endv < start"
    using assms(1,2) that by (rule generate_label_values_empty_range)
  have b: "combos = []"
    if lt: "endv < start" and mem: "(nm, spec) \<in> set all_label_specs"
      and sp: "generate_label_space py md5_int profile additional_labels = Inr combos"
  proof -
    from mem have ne: "all_label_specs \<noteq> []" by auto
    obtain lists where tm: "try_map (\<lambda>nm_spec. generate_label_values py (snd nm_spec))
        all_label_specs = Inr lists"
      using sp ne assms(4) by (auto simp: generate_label_space_def Let_def split: sum.splits)
    have "[] \<in> set lists"
      using try_map_Inr_set[OF tm mem] a[OF lt] by simp
    then have "cartesian_product lists = []" by (rule cartesian_product_empty_dim)
    then show ?thesis
      using sp ne tm assms(4)
      by (auto simp: generate_label_space_def Let_def split: sum.splits option.splits if_splits)
  qed
  have c: "tick np gen t_s = (Inr [], gen)"
    if "create_generator np config [] global_seed = Inr gen"
    using create_generator_fields(1)[OF that] by (rule tick_no_series)
  have d: "generate_label_values py spec = Inl e"
    if "start \<le> endv" and "?op start = Inl e"
  proof -
    from that(1) have "[start..endv] = start # [start + 1..endv]"
      by (simp add: upto_rec1)
    then show ?thesis using that(2) glv by (simp split: if_splits)
  qed
  have f: "\<exists>e'. generate_label_values py spec = Inl e'"
    if "i \<in> {start..endv}" and "?op i = Inl e"
  proof -
    have "i \<in> set [start..endv]" using that(1) by simp
    from try_map_Inl_set[OF this, of ?op e] that(2) glv show ?thesis by simp
  qed
  have g: "\<exists>e'. generate_label_space py md5_int profile additional_labels = Inl e'"
    if "i \<in> {start..endv}" and "?op i = Inl e" and mem: "(nm, spec) \<in> set all_label_specs"
  proof -
    from f[OF that(1,2)] obtain e1 where e1: "generate_label_values py spec = Inl e1" by blast
    from mem have ne: "all_label_specs \<noteq> []" by auto
    from try_map_Inl_set[OF mem, of "\<lambda>nm_spec. generate_label_values py (snd nm_spec)" e1] e1
    obtain e2 where "try_map (\<lambda>nm_spec. generate_label_values py (snd nm_spec)) all_label_specs
        = Inl e2" by auto
    then show ?thesis
      using ne assms(4) by (auto simp: generate_label_space_def Let_def)
  qed
  show ?thesis
    apply (intro conjI impI)
        apply (rule a; assumption)
       apply (elim conjE, rule b; assumption)
      apply (rule c; assumption)
     apply (elim conjE, rule d; (simp split: if_splits))
    apply (elim conjE, rule f; (simp split: if_splits))
    apply (elim conjE, rule g; (simp split: if_splits))
    done
qed

theorem malformed_range_not_rejected_witness:
  "generate_label_values rejecting_format
        \<lparr>lvs_values = None, lvs_range = Some [5, 1], lvs_fmt = None\<rparr> = Inr []
   \<and> generate_label_space rejecting_format length_digest (example_profile None ''first_n'')
        (Some [(''id'', \<lparr>lvs_values = None, lvs_range = Some [5, 1], lvs_fmt = None\<rparr>)]) = Inr []
   \<and> create_generator (scripted_numpy (\<lambda>seed. []))
        (example_config ''requests_total'' ''counter'' ''poisson'') [] 42
       = Inr (MetricGenerator_init (scripted_numpy (\<lambda>seed. [])) CounterGenerator
               ''requests_total'' ''counter'' [] (example_config ''requests_total'' ''counter'' ''poisson'') 42)
   \<and> tick (scripted_numpy (\<lambda>seed. []))
        (MetricGenerator_init (scripted_numpy (\<lambda>seed. [])) CounterGenerator
               ''requests_total'' ''counter'' [] (example_config ''requests_total'' ''counter'' ''poisson'') 42) 0
       = (Inr [], MetricGenerator_init (scripted_numpy (\<lambda>seed. [])) CounterGenerator
               ''requests_total'' ''counter'' [] (example_config ''requests_total'' ''counter'' ''poisson'') 42)
   \<and> CHR ''%'' \<in> set ''%q''
   \<and> percent_format percent_rejecting_format ''%q'' 1 = Inl ValueError
   \<and> generate_label_values percent_rejecting_format
        \<lparr>lvs_values = None, lvs_range = Some [1, 5], lvs_fmt = Some ''%q''\<rparr> = Inl ValueError
   \<and> generate_label_space percent_rejecting_format length_digest (example_profile None ''first_n'')
        (Some [(''id'', \<lparr>lvs_values = None, lvs_range = Some [1, 5], lvs_fmt = Some ''%q''\<rparr>)])
       = Inl ValueError
   \<and> generate_label_values percent_rejecting_format
        \<lparr>lvs_values = None, lvs_range = Some [1, 2], lvs_fmt = Some ''{:q}''\<rparr>
       = Inr [''{:q}'', ''{:q}'']"
proof -
  let ?spec = "\<lparr>lvs_values = None, lvs_range = Some [5, 1], lvs_fmt = None\<rparr>"
  let ?spec2 = "\<lparr>lvs_values = None, lvs_range = Some [1, 5], lvs_fmt = Some ''%q''\<rparr>"
  let ?profile = "example_profile None ''first_n''"
  let ?all = "\<lambda>spec. [(''region'', \<lparr>lvs_values = Some [''us-east'', ''eu'', ''apac''],
                                  lvs_range = None, lvs_fmt = None\<rparr>), (''id'', spec)]"
  let ?np = "scripted_numpy (\<lambda>seed. [])"
  let ?cfg = "example_config ''requests_total'' ''counter'' ''poisson''"
  let ?gen = "MetricGenerator_init ?np CounterGenerator ''requests_total'' ''counter'' [] ?cfg 42"
  have h1: "lvs_values ?spec = None" and h2: "lvs_range ?spec = Some [5, 1]"
    and h3: "''{}'' = (case lvs_fmt ?spec of None \<Rightarrow> ''{}'' | Some f \<Rightarrow> if f = [] then ''{}'' else f)"
    by simp_all
  have g1: "lvs_values ?spec2 = None" and g2: "lvs_range ?spec2 = Some [1, 5]"
    and g3: "''%q'' = (case lvs_fmt ?spec2 of None \<Rightarrow> ''{}'' | Some f \<Rightarrow> if f = [] then ''{}'' else f)"
    by simp_all
  have all1: "?all ?spec = (case Some [(''id'', ?spec)] of
                              None \<Rightarrow> cp_labels ?profile
                            | Some extra \<Rightarrow> dict_update (cp_labels ?profile) extra)"
    and all2: "?all ?spec2 = (case Some [(''id'', ?spec2)] of
                              None \<Rightarrow> cp_labels ?profile
                            | Some extra \<Rightarrow> dict_update (cp_labels ?profile) extra)"
    by (simp_all add: example_profile_def dict_update_def)
  have r: "percent_format percent_rejecting_format ''%q'' 1 = Inl ValueError"
    by (simp add: percent_rejecting_format_def)
  have sp: "generate_label_space rejecting_format length_digest ?profile (Some [(''id'', ?spec)])
            = Inr []"
    by (simp add: generate_label_space_def generate_label_values_def example_profile_def
        dict_update_def Let_def)
  have cg: "create_generator ?np ?cfg [] 42 = Inr ?gen"
    by (simp add: create_generator_def example_config_def Let_def)
  have ok: "generate_label_values percent_rejecting_format
        \<lparr>lvs_values = None, lvs_range = Some [1, 2], lvs_fmt = Some ''{:q}''\<rparr>
       = Inr [''{:q}'', ''{:q}'']"
    by (simp add: generate_label_values_def percent_rejecting_format_def Let_def upto_rec1)
  note T1 = malformed_range_not_rejected[OF h1 h2 h3 all1, of rejecting_format "''id''"
      length_digest "[]" ?np ?cfg 42 ?gen 0]
  note T2 = malformed_range_not_rejected[where py = percent_rejecting_format and e = ValueError
      and i = 1 and nm = "''id''" and md5_int = length_digest, OF g1 g2 g3 all2]
  have e1: "generate_label_values percent_rejecting_format ?spec2 = Inl ValueError"
    using T2 r by simp
  have r1: "generate_label_values percent_rejecting_format
              \<lparr>lvs_values = Some [''us-east'', ''eu'', ''apac''], lvs_range = None, lvs_fmt = None\<rparr>
            = Inr [''us-east'', ''eu'', ''apac'']"
    by (simp add: generate_label_values_def)
  have e2: "generate_label_space percent_rejecting_format length_digest ?profile
               (Some [(''id'', ?spec2)]) = Inl ValueError"
    by (simp add: generate_label_space_def example_profile_def dict_update_def Let_def r1 e1)
  show ?thesis
    using T1 sp cg r e1 e2 ok by simp
qed


section \<open>Counter monotonicity\<close>

text \<open>
  C4. For a counter generator made by \<open>create_generator\<close> and fed any sequence of ticks,
  whatever the configured algorithm and whatever the random generator draws: every
  tick that returns points returns one per label combination, in order, each value is
  at least 0, and the value of a series at a later tick is at least its value at an
  earlier tick. The increment added to the cumulative state is \<open>max(0, increment)\<close>.
\<close>

theorem counter_monotone:
  assumes "create_generator np config combos global_seed = Inr gen"
    and "mc_type config = ''counter''"
    and "run_ticks np gen ts = (outs, gen')"
    and "j < n" and "n < length ts"
    and "outs ! j = Inr ptsj" and "outs ! n = Inr ptsn"
    and "i < length combos"
  shows "length ptsj = length combos \<and> length ptsn = length combos
       \<and> sp_labels (ptsj ! i) = combos ! i \<and> sp_labels (ptsn ! i) = combos ! i
       \<and> pf_le (Fin 0) (sp_value (ptsj ! i))
       \<and> pf_le (sp_value (ptsj ! i)) (sp_value (ptsn ! i))"
proof -
  have cls: "g_class gen = CounterGenerator"
    using assms(1,2) by (rule create_generator_counter)
  have lc: "label_combinations gen = combos" and st: "g_state gen = Map.empty"
    using create_generator_fields[OF assms(1)] by simp_all
  have fin: "\<forall>k. pf_le (dict_get (g_state gen) k (Fin 0)) (dict_get (g_state gen) k (Fin 0))"
    using st by (simp add: dict_get_def)
  have i: "i < length (label_combinations gen)" using lc assms(8) by simp
  have j: "j < length ts" using assms(4,5) by simp
  from counter_run_lower[OF assms(3) cls fin j assms(6) i]
    counter_run_lower[OF assms(3) cls fin assms(5) assms(7) i]
    counter_run_monotone[OF assms(3) cls fin assms(4,5,6,7) i]
  show ?thesis using lc st by (simp add: dict_get_def)
qed

theorem counter_monotone_witness:
  "create_generator (scripted_numpy (\<lambda>seed. [Fin 3, Fin (- 2), NaN, Fin 4]))
     (example_config ''requests_total'' ''counter'' ''poisson'') example_combos 42
   = Inr (MetricGenerator_init (scripted_numpy (\<lambda>seed. [Fin 3, Fin (- 2), NaN, Fin 4]))
        CounterGenerator ''requests_total'' ''counter'' example_combos
        (example_config ''requests_total'' ''counter'' ''poisson'') 42)
   \<and> mc_type (example_config ''requests_total'' ''counter'' ''poisson'') = ''counter''
   \<and> fst (run_ticks (scripted_numpy (\<lambda>seed. [Fin 3, Fin (- 2), NaN, Fin 4]))
       (MetricGenerator_init (scripted_numpy (\<lambda>seed. [Fin 3, Fin (- 2), NaN, Fin 4]))
        CounterGenerator ''requests_total'' ''counter'' example_combos
        (example_config ''requests_total'' ''counter'' ''poisson'') 42) [0, 1])
     = [Inr [\<lparr>sp_name = ''requests_total'', sp_labels = [(''region'', ''us'')], sp_value = Fin 3\<rparr>,
            \<lparr>sp_name = ''requests_total'', sp_labels = [(''region'', ''eu'')], sp_value = Fin 0\<rparr>],
        Inr [\<lparr>sp_name = ''requests_total'', sp_labels = [(''region'', ''us'')], sp_value = Fin 3\<rparr>,
            \<lparr>sp_name = ''requests_total'', sp_labels = [(''region'', ''eu'')], sp_value = Fin 4\<rparr>]]
   \<and> (0 :: nat) < 1 \<and> 1 < length [0, 1 :: int] \<and> 1 < length example_combos
   \<and> pf_le (Fin 0) (Fin 4)"
proof -
  let ?np = "scripted_numpy (\<lambda>seed. [Fin 3, Fin (- 2), NaN, Fin 4])"
  let ?cfg = "example_config ''requests_total'' ''counter'' ''poisson''"
  let ?gen = "MetricGenerator_init ?np CounterGenerator ''requests_total'' ''counter''
      example_combos ?cfg 42"
  let ?p1 = "[\<lparr>sp_name = ''requests_total'', sp_labels = [(''region'', ''us'')], sp_value = Fin 3\<rparr>,
            \<lparr>sp_name = ''requests_total'', sp_labels = [(''region'', ''eu'')], sp_value = Fin 0\<rparr>]"
  let ?p2 = "[\<lparr>sp_name = ''requests_total'', sp_labels = [(''region'', ''us'')], sp_value = Fin 3\<rparr>,
            \<lparr>sp_name = ''requests_total'', sp_labels = [(''region'', ''eu'')], sp_value = Fin 4\<rparr>]"
  let ?gen' = "?gen\<lparr>rng := [], g_state := [label_key [(''region'', ''us'')] \<mapsto> Fin 3,
                                  label_key [(''region'', ''eu'')] \<mapsto> Fin 4]\<rparr>"
  have h1: "create_generator ?np ?cfg example_combos 42 = Inr ?gen"
    by (simp add: create_generator_def Let_def)
  have h2: "mc_type ?cfg = ''counter''" by simp
  have h3: "run_ticks ?np ?gen [0, 1] = ([Inr ?p1, Inr ?p2], ?gen')"
    by (rule example_counter_run)
  have h4: "(0 :: nat) < 1" and h5: "1 < length [0, 1 :: int]" by simp_all
  have h6: "[Inr ?p1, Inr ?p2 :: py_error + SeriesPoint list] ! 0 = Inr ?p1"
    and h7: "[Inr ?p1, Inr ?p2 :: py_error + SeriesPoint list] ! 1 = Inr ?p2" by simp_all
  have h8: "1 < length example_combos" by (simp add: example_combos_def)
  from counter_monotone[OF h1 h2 h3 h4 h5 h6 h7 h8]
  have "pf_le (Fin 0) (Fin 4)" by simp
  then show ?thesis using h1 h2 h3 h4 h5 h8 by simp
qed


section \<open>Undefined observations of histograms and summaries\<close>

text \<open>
  C8, at the failing input. With \<open>allow_nan\<close> set, \<open>_handle_nan\<close> passes an undefined
  observation on, but the histogram and the summary tick then test \<open>value >= 0\<close>, which
  is false for it: for a first draw that is undefined and a second draw of 2, each
  emits only the second point. The gauge tick, which has no such test, emits both.
\<close>

theorem histogram_drops_allowed_nan:
  "handle_nan ((example_config ''latency'' ''histogram'' ''lognormal'')\<lparr>mc_allow_nan := True\<rparr>) NaN
     = Some NaN
   \<and> generated_sequence (scripted_numpy (\<lambda>seed. [NaN, Fin 2]))
        ((example_config ''latency'' ''histogram'' ''lognormal'')\<lparr>mc_allow_nan := True\<rparr>)
        example_combos 42 [0]
     = Inr [Inr [\<lparr>sp_name = ''latency'', sp_labels = [(''region'', ''eu'')], sp_value = Fin 2\<rparr>]]
   \<and> generated_sequence (scripted_numpy (\<lambda>seed. [NaN, Fin 2]))
        ((example_config ''latency'' ''summary'' ''lognormal'')\<lparr>mc_allow_nan := True\<rparr>)
        example_combos 42 [0]
     = Inr [Inr [\<lparr>sp_name = ''latency'', sp_labels = [(''region'', ''eu'')], sp_value = Fin 2\<rparr>]]
   \<and> generated_sequence (scripted_numpy (\<lambda>seed. [NaN, Fin 2]))
        ((example_config ''latency'' ''gauge'' ''bernoulli'')\<lparr>mc_allow_nan := True\<rparr>)
        example_combos 42 [0]
     = Inr [Inr [\<lparr>sp_name = ''latency'', sp_labels = [(''region'', ''us'')], sp_value = NaN\<rparr>,
                 \<lparr>sp_name = ''latency'', sp_labels = [(''region'', ''eu'')], sp_value = Fin 2\<rparr>]]"
  by (simp add: generated_sequence_def create_generator_def MetricGenerator_init_def
      example_config_def example_combos_def tick_def histogram_tick_def summary_tick_def
      gauge_tick_def generate_lognormal_def gauge_generate_bernoulli_def clamp_value_def
      handle_nan_def draw_def next_draw_def Let_def)

end
